theory Spec2Isabelle
  imports Complex_Main "HOL-Library.Log_Nat"
begin

section \<open>Floating-point values\<close>

text \<open>
  The script computes with numpy and torch floats. A value is NaN, an infinity or a
  number. Numbers are kept as reals: rounding and the sign of zero are left out, NaN
  and the infinities behave as IEEE 754 says. Every property below is about NaN, about
  counts, or about which formula is applied to which value; the one place where the
  last bit decides, the comparison of F1 values by the model selector, computes with
  float64 rounding (see the development metrics in float64).
\<close>

datatype fl = NaN | PInf | NInf | Fin real

datatype error =
    ValueError | IndexError | AttributeError | NameError | ZeroDivisionError
  | RuntimeError | FileNotFoundError

fun fneg :: "fl \<Rightarrow> fl" where
  "fneg NaN = NaN"
| "fneg PInf = NInf"
| "fneg NInf = PInf"
| "fneg (Fin a) = Fin (- a)"

fun fadd :: "fl \<Rightarrow> fl \<Rightarrow> fl" where
  "fadd (Fin a) (Fin b) = Fin (a + b)"
| "fadd NaN _ = NaN"
| "fadd _ NaN = NaN"
| "fadd PInf NInf = NaN"
| "fadd NInf PInf = NaN"
| "fadd PInf _ = PInf"
| "fadd _ PInf = PInf"
| "fadd NInf _ = NInf"
| "fadd _ NInf = NInf"

definition fsub :: "fl \<Rightarrow> fl \<Rightarrow> fl" where
  "fsub x y = fadd x (fneg y)"

fun fmul :: "fl \<Rightarrow> fl \<Rightarrow> fl" where
  "fmul (Fin a) (Fin b) = Fin (a * b)"
| "fmul NaN _ = NaN"
| "fmul _ NaN = NaN"
| "fmul PInf PInf = PInf"
| "fmul PInf NInf = NInf"
| "fmul NInf PInf = NInf"
| "fmul NInf NInf = PInf"
| "fmul PInf (Fin a) = (if a = 0 then NaN else if 0 < a then PInf else NInf)"
| "fmul NInf (Fin a) = (if a = 0 then NaN else if 0 < a then NInf else PInf)"
| "fmul (Fin a) PInf = (if a = 0 then NaN else if 0 < a then PInf else NInf)"
| "fmul (Fin a) NInf = (if a = 0 then NaN else if 0 < a then NInf else PInf)"

text \<open>Division never raises on numpy scalars: \<open>0/0\<close> is NaN and \<open>a/0\<close> an infinity.\<close>

fun fdiv :: "fl \<Rightarrow> fl \<Rightarrow> fl" where
  "fdiv (Fin a) (Fin b) =
     (if b = 0 then (if a = 0 then NaN else if 0 < a then PInf else NInf)
      else Fin (a / b))"
| "fdiv NaN _ = NaN"
| "fdiv _ NaN = NaN"
| "fdiv PInf PInf = NaN"
| "fdiv PInf NInf = NaN"
| "fdiv NInf PInf = NaN"
| "fdiv NInf NInf = NaN"
| "fdiv PInf (Fin b) = (if 0 \<le> b then PInf else NInf)"
| "fdiv NInf (Fin b) = (if 0 \<le> b then NInf else PInf)"
| "fdiv (Fin a) PInf = Fin 0"
| "fdiv (Fin a) NInf = Fin 0"

fun fsqrt :: "fl \<Rightarrow> fl" where
  "fsqrt NaN = NaN"
| "fsqrt PInf = PInf"
| "fsqrt NInf = NaN"
| "fsqrt (Fin a) = (if a < 0 then NaN else Fin (sqrt a))"

text \<open>\<open>x >= y\<close>: false as soon as one side is NaN.\<close>

fun fge :: "fl \<Rightarrow> fl \<Rightarrow> bool" where
  "fge (Fin a) (Fin b) = (b \<le> a)"
| "fge NaN _ = False"
| "fge _ NaN = False"
| "fge PInf _ = True"
| "fge _ NInf = True"
| "fge NInf _ = False"
| "fge _ PInf = False"

definition fle :: "fl \<Rightarrow> fl \<Rightarrow> bool" where
  "fle x y = fge y x"

text \<open>\<open>x == y\<close>: NaN equals nothing, itself included.\<close>

definition feq :: "fl \<Rightarrow> fl \<Rightarrow> bool" where
  "feq x y = (x \<noteq> NaN \<and> y \<noteq> NaN \<and> x = y)"

definition isnan :: "fl \<Rightarrow> bool" where
  "isnan x = (x = NaN)"

section \<open>Binarization and the confusion matrix\<close>

text \<open>
  \<open>(out>=0.5)+0\<close> and \<open>(label>=0.5)+0\<close>: the comparison gives a boolean, adding 0 makes it
  the integer 0 or 1, which the float array \<open>results\<close> stores as 0.0 or 1.0.
\<close>

definition binarize :: "fl \<Rightarrow> fl" where
  "binarize x = (if fge x (Fin (1/2)) then Fin 1 else Fin 0)"

text \<open>\<open>results\<close> is an array of rows \<open>(out_lab, label)\<close>, started as \<open>np.zeros((0, 2))\<close>.\<close>

type_synonym results = "(fl \<times> fl) list"

text \<open>\<open>np.c_[out_lab, label]\<close>: the two columns must have the same number of rows.\<close>

definition np_c :: "fl list \<Rightarrow> fl list \<Rightarrow> error + results" where
  "np_c out_lab label =
     (if length out_lab = length label then Inr (zip out_lab label) else Inl ValueError)"

text \<open>\<open>out_lab[label==v]\<close> and \<open>np.sum(xs==v)\<close>.\<close>

definition select_where :: "fl list \<Rightarrow> fl list \<Rightarrow> fl \<Rightarrow> fl list" where
  "select_where out_lab label v = map fst (filter (\<lambda>(p, l). feq l v) (zip out_lab label))"

definition count_eq :: "fl list \<Rightarrow> fl \<Rightarrow> nat" where
  "count_eq xs v = length (filter (\<lambda>x. feq x v) xs)"

record confusion =
  tp :: nat
  tn :: nat
  fp :: nat
  fn :: nat

definition confusion_of :: "fl list \<Rightarrow> fl list \<Rightarrow> confusion" where
  "confusion_of out_lab label =
     \<lparr> tp = count_eq (select_where out_lab label (Fin 1)) (Fin 1),
       tn = count_eq (select_where out_lab label (Fin 0)) (Fin 0),
       fp = count_eq (select_where out_lab label (Fin 0)) (Fin 1),
       fn = count_eq (select_where out_lab label (Fin 1)) (Fin 0) \<rparr>"

text \<open>
  The training metrics read the two columns of \<open>results\<close> as they are; the development
  and test metrics binarize both columns once more first.
\<close>

definition train_confusion :: "results \<Rightarrow> confusion" where
  "train_confusion results = confusion_of (map fst results) (map snd results)"

definition dev_confusion :: "results \<Rightarrow> confusion" where
  "dev_confusion results =
     confusion_of (map (binarize \<circ> fst) results) (map (binarize \<circ> snd) results)"

definition test_confusion :: "results \<Rightarrow> confusion" where
  "test_confusion results =
     confusion_of (map (binarize \<circ> fst) results) (map (binarize \<circ> snd) results)"

text \<open>The counts are numpy integers; \<open>/\<close> on them is float division.\<close>

definition idiv :: "nat \<Rightarrow> nat \<Rightarrow> fl" where
  "idiv a b = fdiv (Fin (real a)) (Fin (real b))"

definition precision_of :: "confusion \<Rightarrow> fl" where
  "precision_of c = idiv (tp c) (tp c + fp c)"

definition recall_of :: "confusion \<Rightarrow> fl" where
  "recall_of c = idiv (tp c) (tp c + fn c)"

definition f1_of :: "confusion \<Rightarrow> fl" where
  "f1_of c =
     fdiv (fmul (Fin 2) (fmul (precision_of c) (recall_of c)))
          (fadd (precision_of c) (recall_of c))"

definition acc_of :: "confusion \<Rightarrow> fl" where
  "acc_of c = idiv (tp c + tn c) (tp c + fp c + tn c + fn c)"

definition n_acc_of :: "confusion \<Rightarrow> fl" where
  "n_acc_of c = idiv (tn c) (tn c + fn c)"

definition fpr_of :: "confusion \<Rightarrow> fl" where
  "fpr_of c = idiv (fp c) (tn c + fp c)"

definition fnr_of :: "confusion \<Rightarrow> fl" where
  "fnr_of c = idiv (fn c) (tp c + fn c)"

section \<open>The development metrics in float64\<close>

text \<open>
  The model selector compares F1 values with \<open><=\<close>, so there the last bit of each
  float64 operation counts. What rounding to float64 does is a parameter \<open>rnd\<close>, the
  float64 nearest to a real number; the metric values are far from overflow. An
  operation is the exact IEEE result, rounded when it is a number.
\<close>

fun round_fl :: "(real \<Rightarrow> real) \<Rightarrow> fl \<Rightarrow> fl" where
  "round_fl rnd (Fin v) = Fin (rnd v)"
| "round_fl rnd NaN = NaN"
| "round_fl rnd PInf = PInf"
| "round_fl rnd NInf = NInf"

definition fadd64 :: "(real \<Rightarrow> real) \<Rightarrow> fl \<Rightarrow> fl \<Rightarrow> fl" where
  "fadd64 rnd x y = round_fl rnd (fadd x y)"

definition fmul64 :: "(real \<Rightarrow> real) \<Rightarrow> fl \<Rightarrow> fl \<Rightarrow> fl" where
  "fmul64 rnd x y = round_fl rnd (fmul x y)"

definition fdiv64 :: "(real \<Rightarrow> real) \<Rightarrow> fl \<Rightarrow> fl \<Rightarrow> fl" where
  "fdiv64 rnd x y = round_fl rnd (fdiv x y)"

text \<open>\<open>/\<close> on two numpy integers: both become float64, then the division.\<close>

definition idiv64 :: "(real \<Rightarrow> real) \<Rightarrow> nat \<Rightarrow> nat \<Rightarrow> fl" where
  "idiv64 rnd a b = fdiv64 rnd (Fin (rnd (real a))) (Fin (rnd (real b)))"

definition precision64 :: "(real \<Rightarrow> real) \<Rightarrow> confusion \<Rightarrow> fl" where
  "precision64 rnd c = idiv64 rnd (tp c) (tp c + fp c)"

definition recall64 :: "(real \<Rightarrow> real) \<Rightarrow> confusion \<Rightarrow> fl" where
  "recall64 rnd c = idiv64 rnd (tp c) (tp c + fn c)"

text \<open>\<open>2 * (precision * recall) / (precision + recall)\<close>, operation by operation.\<close>

definition f1_64 :: "(real \<Rightarrow> real) \<Rightarrow> confusion \<Rightarrow> fl" where
  "f1_64 rnd c =
     fdiv64 rnd
       (fmul64 rnd (Fin (rnd 2)) (fmul64 rnd (precision64 rnd c) (recall64 rnd c)))
       (fadd64 rnd (precision64 rnd c) (recall64 rnd c))"

definition acc64 :: "(real \<Rightarrow> real) \<Rightarrow> confusion \<Rightarrow> fl" where
  "acc64 rnd c = idiv64 rnd (tp c + tn c) (tp c + fp c + tn c + fn c)"

section \<open>The training loop and model selection\<close>

text \<open>
  What torch does is a parameter: the forward pass of the model, the loss (which may
  raise), one optimizer step (zero_grad, backward, gradient clipping, \<open>optim.step\<close>) and
  the scheduler step. \<open>'w\<close> is the state of the model with its optimizer, \<open>'x\<close> a batch of
  input windows. A batch of the loader is the pair of its inputs and its labels, one
  label per example.
\<close>

record ('w, 'x) torch =
  forward :: "'w \<Rightarrow> 'x \<Rightarrow> fl list"
  bce_loss :: "fl list \<Rightarrow> fl list \<Rightarrow> error + fl"
  optim_step :: "'w \<Rightarrow> 'x \<Rightarrow> fl list \<Rightarrow> 'w"
  scheduler_step :: "'w \<Rightarrow> 'w"

record args =
  data_len :: nat
  use_cuda :: bool
  epoch_num :: nat
  train_mean :: "fl list option"
  train_std :: "fl list option"

text \<open>
  \<open>loss.data.cpu().numpy() if args.use_cuda else loss.data.numpy()[0]\<close>: the loss is a
  0-dimensional array, which has no element \<open>[0]\<close>.
\<close>

definition loss_item :: "args \<Rightarrow> fl \<Rightarrow> error + fl" where
  "loss_item g loss = (if use_cuda g then Inr loss else Inl IndexError)"

definition train_batch ::
  "('w, 'x) torch \<Rightarrow> args \<Rightarrow> 'w \<times> fl list \<times> results \<Rightarrow> 'x \<times> fl list
     \<Rightarrow> error + 'w \<times> fl list \<times> results" where
  "train_batch T g st batch_data =
     (case st of (w, losses, results) \<Rightarrow>
      case batch_data of (input, label) \<Rightarrow>
        let out = forward T w input in
        (case bce_loss T out label of
           Inl e \<Rightarrow> Inl e
         | Inr loss \<Rightarrow>
             (case loss_item g loss of
                Inl e \<Rightarrow> Inl e
              | Inr l \<Rightarrow>
                  let w' = optim_step T w input label in
                  (case np_c (map binarize out) (map binarize label) of
                     Inl e \<Rightarrow> Inl e
                   | Inr rows \<Rightarrow> Inr (w', losses @ [l], results @ rows)))))"

fun train_pass ::
  "('w, 'x) torch \<Rightarrow> args \<Rightarrow> ('x \<times> fl list) list \<Rightarrow> 'w \<times> fl list \<times> results
     \<Rightarrow> error + 'w \<times> fl list \<times> results" where
  "train_pass T g [] st = Inr st"
| "train_pass T g (b # bs) st =
     (case train_batch T g st b of Inl e \<Rightarrow> Inl e | Inr st' \<Rightarrow> train_pass T g bs st')"

definition dev_batch ::
  "('w, 'x) torch \<Rightarrow> args \<Rightarrow> 'w \<Rightarrow> fl list \<times> results \<Rightarrow> 'x \<times> fl list
     \<Rightarrow> error + fl list \<times> results" where
  "dev_batch T g w st batch_data =
     (case st of (losses, results) \<Rightarrow>
      case batch_data of (input, label) \<Rightarrow>
        let out = forward T w input in
        (case bce_loss T out label of
           Inl e \<Rightarrow> Inl e
         | Inr loss \<Rightarrow>
             (case loss_item g loss of
                Inl e \<Rightarrow> Inl e
              | Inr l \<Rightarrow>
                  (case np_c (map binarize out) (map binarize label) of
                     Inl e \<Rightarrow> Inl e
                   | Inr rows \<Rightarrow> Inr (losses @ [l], results @ rows)))))"

fun dev_pass ::
  "('w, 'x) torch \<Rightarrow> args \<Rightarrow> 'w \<Rightarrow> ('x \<times> fl list) list \<Rightarrow> fl list \<times> results
     \<Rightarrow> error + fl list \<times> results" where
  "dev_pass T g w [] st = Inr st"
| "dev_pass T g w (b # bs) st =
     (case dev_batch T g w st b of Inl e \<Rightarrow> Inl e | Inr st' \<Rightarrow> dev_pass T g w bs st')"

text \<open>
  What the machine does besides torch: rounding to float64, and \<open>torch.save(model,
  "models/model<cuda>.pkl")\<close>, which writes the file or raises (when \<open>models/\<close> is missing,
  say): \<open>None\<close> is success.
\<close>

record 'w machine =
  to_float64 :: "real \<Rightarrow> real"
  torch_save :: "'w \<Rightarrow> error option"

text \<open>
  The state of the run: the model, the best-so-far triple, the checkpoint file
  \<open>models/model<cuda>.pkl\<close> (absent, or holding a model), and whether the loop variable
  \<open>i\<close>, which the "Step" line prints, has been assigned yet. \<open>history\<close> keeps, for every
  finished epoch, the F1 and accuracy of its "Dev-" line (before \<open>round(v, 3)\<close>) and the
  model the epoch ended with.
\<close>

record 'w run_state =
  model :: 'w
  max_f1 :: fl
  max_f1_acc :: fl
  best_epoch :: int
  checkpoint :: "'w option"
  i_bound :: bool
  history :: "(fl \<times> fl \<times> 'w) list"

text \<open>
  One pass of the body of \<open>for step in range(args.epoch_num)\<close>. The training metrics are
  only printed: their divisions are numpy divisions and \<open>round(v, 3)\<close> accepts NaN, so
  that part has no failing branch and changes no state. The development F1 and accuracy
  are the float64 values, which is what \<open>max_f1<=f1\<close> compares; \<open>torch.save\<close> may raise.
\<close>

definition epoch ::
  "('w, 'x) torch \<Rightarrow> 'w machine \<Rightarrow> args \<Rightarrow> ('x \<times> fl list) list \<Rightarrow> ('x \<times> fl list) list
     \<Rightarrow> nat \<Rightarrow> 'w run_state \<Rightarrow> error + 'w run_state" where
  "epoch T P g train_data dev_data step s =
     (case train_pass T g train_data (model s, [], []) of
        Inl e \<Rightarrow> Inl e
      | Inr (w1, losses, results) \<Rightarrow>
          let w2 = scheduler_step T w1 in
          if train_data = [] \<and> \<not> i_bound s then Inl NameError
          else
            (case dev_pass T g w2 dev_data ([], []) of
               Inl e \<Rightarrow> Inl e
             | Inr (dev_losses, dev_results) \<Rightarrow>
                 let c = dev_confusion dev_results;
                     acc = acc64 (to_float64 P) c;
                     f1 = f1_64 (to_float64 P) c;
                     s1 = s\<lparr> model := w2,
                             i_bound := (i_bound s \<or> train_data \<noteq> [] \<or> dev_data \<noteq> []),
                             history := history s @ [(f1, acc, w2)] \<rparr>
                 in if fle (max_f1 s) f1
                    then (case torch_save P w2 of
                            Some e \<Rightarrow> Inl e
                          | None \<Rightarrow>
                              Inr (s1\<lparr> max_f1 := f1, max_f1_acc := acc,
                                       best_epoch := int step, checkpoint := Some w2 \<rparr>))
                    else Inr s1))"

fun run_epochs ::
  "('w, 'x) torch \<Rightarrow> 'w machine \<Rightarrow> args \<Rightarrow> (nat \<Rightarrow> ('x \<times> fl list) list)
     \<Rightarrow> ('x \<times> fl list) list \<Rightarrow> nat list \<Rightarrow> 'w run_state \<Rightarrow> error + 'w run_state" where
  "run_epochs T P g train_data dev_data [] s = Inr s"
| "run_epochs T P g train_data dev_data (step # steps) s =
     (case epoch T P g (train_data step) dev_data step s of
        Inl e \<Rightarrow> Inl e
      | Inr s' \<Rightarrow> run_epochs T P g train_data dev_data steps s')"

text \<open>
  The whole loop, from \<open>max_f1, max_f1_acc = 0, 0\<close> and \<open>best_epoch = -1\<close>. The training
  loader shuffles, so its batches depend on the epoch. \<open>disk\<close> is the checkpoint file as
  the run finds it.
\<close>

definition initial_state :: "'w \<Rightarrow> 'w option \<Rightarrow> 'w run_state" where
  "initial_state w0 disk =
     \<lparr> model = w0, max_f1 = Fin 0, max_f1_acc = Fin 0, best_epoch = - 1,
       checkpoint = disk, i_bound = False, history = [] \<rparr>"

definition training_loop ::
  "('w, 'x) torch \<Rightarrow> 'w machine \<Rightarrow> args \<Rightarrow> (nat \<Rightarrow> ('x \<times> fl list) list)
     \<Rightarrow> ('x \<times> fl list) list \<Rightarrow> 'w \<Rightarrow> 'w option \<Rightarrow> error + 'w run_state" where
  "training_loop T P g train_data dev_data w0 disk =
     run_epochs T P g train_data dev_data [0..<epoch_num g] (initial_state w0 disk)"

section \<open>The test evaluation\<close>

definition fsum :: "fl list \<Rightarrow> fl" where
  "fsum xs = foldl fadd (Fin 0) xs"

text \<open>\<open>np.mean\<close>: the mean of no values is \<open>0/0\<close>.\<close>

definition np_mean :: "fl list \<Rightarrow> fl" where
  "np_mean xs = fdiv (fsum xs) (Fin (real (length xs)))"

record report =
  r_loss :: fl
  r_n_acc :: fl
  r_precision :: fl
  r_recall :: fl
  r_fpr :: fl
  r_fnr :: fl
  r_acc :: fl
  r_f1 :: fl

definition test_report :: "fl list \<Rightarrow> results \<Rightarrow> report" where
  "test_report losses results =
     (let c = test_confusion results in
      \<lparr> r_loss = np_mean losses, r_n_acc = n_acc_of c, r_precision = precision_of c,
        r_recall = recall_of c, r_fpr = fpr_of c, r_fnr = fnr_of c, r_acc = acc_of c,
        r_f1 = f1_of c \<rparr>)"

text \<open>
  Lines 297 to 331. \<open>torch.load\<close> needs the checkpoint file. The loop header unpacks each
  batch into the three names \<open>input, feature, label\<close>, and a batch of the loader has two
  tensors, so the first batch raises. The body has no call of the model: nothing in it
  uses \<open>forward\<close>.
\<close>

definition test_eval ::
  "args \<Rightarrow> ('x \<times> fl list) list \<Rightarrow> 'w run_state \<Rightarrow> error + report \<times> results" where
  "test_eval g test_data s =
     (case checkpoint s of
        None \<Rightarrow> Inl FileNotFoundError
      | Some w \<Rightarrow>
          (case test_data of
             [] \<Rightarrow> Inr (test_report [] [], [])
           | batch_data # _ \<Rightarrow> Inl ValueError))"

section \<open>Arrays\<close>

text \<open>
  A numpy array or torch tensor of three axes: its shape and its entries. Entries
  outside the shape are never read.
\<close>

record arr3 =
  shape0 :: nat
  shape1 :: nat
  shape2 :: nat
  elem :: "nat \<Rightarrow> nat \<Rightarrow> nat \<Rightarrow> fl"

text \<open>\<open>self.input[:, :, i]\<close>, all entries of channel \<open>i\<close> over examples and timesteps.\<close>

definition channel :: "arr3 \<Rightarrow> nat \<Rightarrow> fl list" where
  "channel a i =
     concat (map (\<lambda>n. map (\<lambda>t. elem a n t i) [0..<shape1 a]) [0..<shape0 a])"

text \<open>
  \<open>np.nanmean\<close> and \<open>np.nanstd\<close>: mean and (population) standard deviation of the
  entries that are not NaN; NaN when there is none.
\<close>

definition nanmean :: "fl list \<Rightarrow> fl" where
  "nanmean xs = np_mean (filter (\<lambda>x. \<not> isnan x) xs)"

definition nanstd :: "fl list \<Rightarrow> fl" where
  "nanstd xs =
     (let ys = filter (\<lambda>x. \<not> isnan x) xs;
          m = np_mean ys
      in fsqrt (np_mean (map (\<lambda>y. fmul (fsub y m) (fsub y m)) ys)))"

section \<open>SigDataset: normalization\<close>

text \<open>\<open>(x - train_mean) / (train_std + 1e-5)\<close> for one value.\<close>

definition standardize :: "fl \<Rightarrow> fl \<Rightarrow> fl \<Rightarrow> fl" where
  "standardize m s x = fdiv (fsub x m) (fadd s (Fin (1 / 100000)))"

text \<open>\<open>self.input[:,:, i] = (channel - train_mean) / (train_std + 1e-5)\<close>, in place.\<close>

definition set_channel :: "arr3 \<Rightarrow> nat \<Rightarrow> fl \<Rightarrow> fl \<Rightarrow> arr3" where
  "set_channel a i m s =
     a\<lparr> elem := (\<lambda>n t c. if c = i then standardize m s (elem a n t c) else elem a n t c) \<rparr>"

text \<open>
  The loop of the \<open>training\<close> branch, over \<open>range(c)\<close>: it fills \<open>args.train_mean\<close> and
  \<open>args.train_std\<close> (both started as \<open>np.zeros(c)\<close>) and overwrites channel after channel.
\<close>

fun fit_channels :: "nat list \<Rightarrow> fl list \<times> fl list \<times> arr3 \<Rightarrow> fl list \<times> fl list \<times> arr3" where
  "fit_channels [] st = st"
| "fit_channels (i # is) (means, stds, a) =
     (let m = nanmean (channel a i);
          s = nanstd (channel a i);
          means' = means[i := m];
          stds' = stds[i := s]
      in fit_channels is (means', stds', set_channel a i (means' ! i) (stds' ! i)))"

text \<open>
  The loop of the \<open>not training\<close> branch: it reads \<open>args.train_mean[i]\<close> and
  \<open>args.train_std[i]\<close>; the attribute may be missing and the index out of range.
\<close>

definition read_stat :: "fl list option \<Rightarrow> nat \<Rightarrow> error + fl" where
  "read_stat st i =
     (case st of
        None \<Rightarrow> Inl AttributeError
      | Some xs \<Rightarrow> if i < length xs then Inr (xs ! i) else Inl IndexError)"

fun apply_channels :: "args \<Rightarrow> nat list \<Rightarrow> arr3 \<Rightarrow> error + arr3" where
  "apply_channels g [] a = Inr a"
| "apply_channels g (i # is) a =
     (case read_stat (train_mean g) i of
        Inl e \<Rightarrow> Inl e
      | Inr m \<Rightarrow>
          (case read_stat (train_std g) i of
             Inl e \<Rightarrow> Inl e
           | Inr s \<Rightarrow> apply_channels g is (set_channel a i m s)))"

record SigDataset =
  input :: arr3
  label :: "fl list"
  training :: bool

text \<open>
  \<open>SigDataset.__init__\<close>. The statistics live on the shared \<open>args\<close>, so the constructor
  takes \<open>args\<close> and returns it with the dataset.
\<close>

definition SigDataset_init ::
  "args \<Rightarrow> arr3 \<Rightarrow> fl list \<Rightarrow> bool \<Rightarrow> error + args \<times> SigDataset" where
  "SigDataset_init g data lab is_training =
     (let c = shape2 data in
      if is_training then
        (case fit_channels [0..<c] (replicate c (Fin 0), replicate c (Fin 0), data) of
           (means, stds, a) \<Rightarrow>
             Inr (g\<lparr> train_mean := Some means, train_std := Some stds \<rparr>,
                  \<lparr> input = a, label = lab, training = is_training \<rparr>))
      else
        (case apply_channels g [0..<c] data of
           Inl e \<Rightarrow> Inl e
         | Inr a \<Rightarrow> Inr (g, \<lparr> input = a, label = lab, training = is_training \<rparr>)))"

text \<open>
  Lines 113 to 115: the training dataset is constructed first, then the development and
  the test dataset.
\<close>

definition build_datasets ::
  "args \<Rightarrow> arr3 \<times> fl list \<Rightarrow> arr3 \<times> fl list \<Rightarrow> arr3 \<times> fl list
     \<Rightarrow> error + args \<times> SigDataset \<times> SigDataset \<times> SigDataset" where
  "build_datasets g tr dv te =
     (case SigDataset_init g (fst tr) (snd tr) True of
        Inl e \<Rightarrow> Inl e
      | Inr (g1, train_data) \<Rightarrow>
          (case SigDataset_init g1 (fst dv) (snd dv) False of
             Inl e \<Rightarrow> Inl e
           | Inr (g2, dev_data) \<Rightarrow>
               (case SigDataset_init g2 (fst te) (snd te) False of
                  Inl e \<Rightarrow> Inl e
                | Inr (g3, test_data) \<Rightarrow> Inr (g3, train_data, dev_data, test_data))))"

section \<open>The model: positional encoding and the inputs of the towers\<close>

record arr2 =
  n_rows :: nat
  n_cols :: nat
  cell :: "nat \<Rightarrow> nat \<Rightarrow> real"

text \<open>\<open>torch.arange(0, d_model, 2).float()\<close>\<close>

definition arange_by_2 :: "nat \<Rightarrow> real list" where
  "arange_by_2 d = map (\<lambda>k. real (2 * k)) [0..<(d + 1) div 2]"

text \<open>The number of columns \<open>s, s + 2, ...\<close> of a row of \<open>d\<close> columns.\<close>

definition n_slots :: "nat \<Rightarrow> nat \<Rightarrow> nat" where
  "n_slots d s = (d + 1 - s) div 2"

text \<open>
  \<open>pe[:, s::2] = V\<close>, where row \<open>p\<close> of \<open>V\<close> is the list \<open>V p\<close> of \<open>k\<close> values. torch accepts
  the assignment when \<open>V\<close> has as many columns as there are slots, or one column, which
  it repeats.
\<close>

definition assign_stride :: "arr2 \<Rightarrow> nat \<Rightarrow> (nat \<Rightarrow> real list) \<Rightarrow> nat \<Rightarrow> error + arr2" where
  "assign_stride pe s V k =
     (if k = n_slots (n_cols pe) s \<or> k = 1 then
        Inr (pe\<lparr> cell := (\<lambda>p c. if s \<le> c \<and> (c - s) mod 2 = 0
                                 then V p ! (if k = 1 then 0 else (c - s) div 2)
                                 else cell pe p c) \<rparr>)
      else Inl RuntimeError)"

definition unsqueeze0 :: "arr2 \<Rightarrow> arr3" where
  "unsqueeze0 m =
     \<lparr> shape0 = 1, shape1 = n_rows m, shape2 = n_cols m, elem = (\<lambda>n p c. Fin (cell m p c)) \<rparr>"

text \<open>
  \<open>torch.exp(torch.arange(0, d_model, 2).float() * (-math.log(10000.0) / d_model))\<close>,
  the frequency vector, and what the cosine columns use: \<open>div_term[:-1]\<close> when
  \<open>d_model\<close> is odd, \<open>div_term\<close> otherwise.
\<close>

definition div_term :: "nat \<Rightarrow> real list" where
  "div_term d_model = map (\<lambda>x. exp (x * (- ln 10000 / real d_model))) (arange_by_2 d_model)"

definition cos_div_term :: "nat \<Rightarrow> real list" where
  "cos_div_term d_model =
     (if d_model mod 2 = 1 then butlast (div_term d_model) else div_term d_model)"

text \<open>
  \<open>Model.create_positional_encoding\<close>. \<open>-math.log(10000.0) / d_model\<close> is a Python float
  division, which raises when \<open>d_model\<close> is 0. Sines and cosines of numbers are numbers,
  so the table is computed in the reals and stored as floats at the end.
\<close>

definition create_positional_encoding :: "nat \<Rightarrow> nat \<Rightarrow> error + arr3" where
  "create_positional_encoding seq_len d_model =
     (let pe = \<lparr> n_rows = seq_len, n_cols = d_model, cell = (\<lambda>p c. 0) \<rparr>;
          position = (\<lambda>p. real p)
      in if d_model = 0 then Inl ZeroDivisionError
         else
           (case assign_stride pe 0 (\<lambda>p. map (\<lambda>w. sin (position p * w)) (div_term d_model))
                   (length (div_term d_model)) of
              Inl e \<Rightarrow> Inl e
            | Inr pe1 \<Rightarrow>
                (case assign_stride pe1 1
                        (\<lambda>p. map (\<lambda>w. cos (position p * w)) (cos_div_term d_model))
                        (length (cos_div_term d_model)) of
                   Inl e \<Rightarrow> Inl e
                 | Inr pe2 \<Rightarrow> Inr (unsqueeze0 pe2))))"

definition network_feature :: "string list" where
  "network_feature = [''rtt'', ''loss_rate'', ''dns_rate'', ''dns_latency'', ''ul_bw'', ''dl_bw'']"

definition radio_feature :: "string list" where
  "radio_feature = [''rsrp'', ''snr'', ''rat'']"

definition bs_feature :: "string list" where
  "bs_feature = [''handover'', ''dwell_time'']"

text \<open>
  Broadcasting of one axis: equal sizes, or one of them 1. An index into the axis of
  size 1 is 0.
\<close>

definition bdim :: "nat \<Rightarrow> nat \<Rightarrow> nat option" where
  "bdim m n = (if m = n then Some m else if m = 1 then Some n else if n = 1 then Some m else None)"

definition bidx :: "nat \<Rightarrow> nat \<Rightarrow> nat" where
  "bidx m i = (if m = 1 then 0 else i)"

text \<open>\<open>x + self.pe.repeat(b, 1, 1)\<close> with \<open>b = x.shape[0]\<close>; \<open>self.pe\<close> has shape \<open>(1, T, D)\<close>.\<close>

definition add_pe :: "arr3 \<Rightarrow> arr3 \<Rightarrow> error + arr3" where
  "add_pe x pe =
     (case (bdim (shape1 x) (shape1 pe), bdim (shape2 x) (shape2 pe)) of
        (Some t, Some d) \<Rightarrow>
          Inr \<lparr> shape0 = shape0 x, shape1 = t, shape2 = d,
                elem = (\<lambda>n i j. fadd (elem x n (bidx (shape1 x) i) (bidx (shape2 x) j))
                                   (elem pe 0 (bidx (shape1 pe) i) (bidx (shape2 pe) j))) \<rparr>
      | _ \<Rightarrow> Inl RuntimeError)"

text \<open>\<open>x[torch.isnan(x)] = 0\<close>\<close>

definition zero_nan :: "arr3 \<Rightarrow> arr3" where
  "zero_nan x = x\<lparr> elem := (\<lambda>n i j. if isnan (elem x n i j) then Fin 0 else elem x n i j) \<rparr>"

text \<open>\<open>x[:, :, lo:hi]\<close> for \<open>0 \<le> lo\<close>, \<open>0 \<le> hi\<close>: both bounds are clipped to the axis.\<close>

definition slice2 :: "arr3 \<Rightarrow> nat \<Rightarrow> nat \<Rightarrow> arr3" where
  "slice2 x lo hi =
     (let lo' = min lo (shape2 x); hi' = min hi (shape2 x)
      in x\<lparr> shape2 := hi' - lo', elem := (\<lambda>n i j. elem x n i (lo' + j)) \<rparr>)"

text \<open>
  Lines 164 to 169 of \<open>Model.forward\<close>: what the three towers receive. The last slice is
  \<open>x[:, :, -len(args.bs_feature):]\<close>, which starts \<open>len(args.bs_feature)\<close> channels before
  the end, or at 0 when there are fewer.
\<close>

definition forward_tower_inputs :: "arr3 \<Rightarrow> arr3 \<Rightarrow> error + arr3 \<times> arr3 \<times> arr3" where
  "forward_tower_inputs pe x0 =
     (case add_pe x0 pe of
        Inl e \<Rightarrow> Inl e
      | Inr x1 \<Rightarrow>
          let x = zero_nan x1;
              x_network = slice2 x 0 (length network_feature);
              x_radio = slice2 x (length network_feature)
                          (length network_feature + length radio_feature);
              x_bs = slice2 x (shape2 x - length bs_feature) (shape2 x)
          in Inr (x_network, x_radio, x_bs))"

section \<open>Notions the properties are stated with\<close>

text \<open>The number of examples behind a confusion matrix, and of a list of batches.\<close>

definition count_sum :: "confusion \<Rightarrow> nat" where
  "count_sum c = tp c + tn c + fp c + fn c"

definition n_examples :: "('x \<times> fl list) list \<Rightarrow> nat" where
  "n_examples batches = sum_list (map (\<lambda>b. length (snd b)) batches)"

text \<open>
  The pairs (model output, label) a pass sees, before any binarization. In the training
  pass the model changes after every batch; in the development pass it is fixed.
\<close>

fun train_outputs :: "('w, 'x) torch \<Rightarrow> 'w \<Rightarrow> ('x \<times> fl list) list \<Rightarrow> (fl \<times> fl) list" where
  "train_outputs T w [] = []"
| "train_outputs T w (b # bs) =
     zip (forward T w (fst b)) (snd b) @ train_outputs T (optim_step T w (fst b) (snd b)) bs"

definition dev_outputs :: "('w, 'x) torch \<Rightarrow> 'w \<Rightarrow> ('x \<times> fl list) list \<Rightarrow> (fl \<times> fl) list" where
  "dev_outputs T w batches = concat (map (\<lambda>b. zip (forward T w (fst b)) (snd b)) batches)"

definition binarize_row :: "fl \<times> fl \<Rightarrow> fl \<times> fl" where
  "binarize_row r = (binarize (fst r), binarize (snd r))"

text \<open>
  The confusion matrix as the conventions word it, on pairs (probability, label):
  positive means \<open>>= 0.5\<close>, for the prediction and for the label alike.
\<close>

definition by_threshold :: "(fl \<times> fl) list \<Rightarrow> confusion" where
  "by_threshold rs =
     \<lparr> tp = length (filter (\<lambda>(p, y). fge p (Fin (1/2)) \<and> fge y (Fin (1/2))) rs),
       tn = length (filter (\<lambda>(p, y). \<not> fge p (Fin (1/2)) \<and> \<not> fge y (Fin (1/2))) rs),
       fp = length (filter (\<lambda>(p, y). fge p (Fin (1/2)) \<and> \<not> fge y (Fin (1/2))) rs),
       fn = length (filter (\<lambda>(p, y). \<not> fge p (Fin (1/2)) \<and> fge y (Fin (1/2))) rs) \<rparr>"

text \<open>An F1 as the metric code can produce it: NaN, or a value that is \<open>>= 0\<close>.\<close>

definition f1_value :: "fl \<Rightarrow> bool" where
  "f1_value f = (f = NaN \<or> fge f (Fin 0))"

text \<open>
  An entry \<open>(f1, acc, w)\<close> of the history holds the development metrics of the model \<open>w\<close>.
\<close>

definition dev_metrics_of ::
  "('w, 'x) torch \<Rightarrow> 'w machine \<Rightarrow> args \<Rightarrow> ('x \<times> fl list) list \<Rightarrow> fl \<times> fl \<times> 'w \<Rightarrow> bool" where
  "dev_metrics_of T P g dev_data e =
     (\<exists>ls res. dev_pass T g (snd (snd e)) dev_data ([], []) = Inr (ls, res) \<and>
        fst e = f1_64 (to_float64 P) (dev_confusion res) \<and>
        fst (snd e) = acc64 (to_float64 P) (dev_confusion res))"

text \<open>
  What the best-so-far triple and the checkpoint are, given the history: untouched when
  every epoch had the F1 NaN; otherwise those of the last epoch among the ones with the
  largest F1, by the comparison of the float64 values.
\<close>

definition selected :: "'w option \<Rightarrow> 'w run_state \<Rightarrow> bool" where
  "selected disk s =
     (let h = history s in
      if \<forall>e \<in> set h. fst e = NaN
      then best_epoch s = - 1 \<and> max_f1 s = Fin 0 \<and> max_f1_acc s = Fin 0 \<and> checkpoint s = disk
      else \<exists>k < length h. \<exists>w.
             best_epoch s = int k \<and> h ! k = (max_f1 s, max_f1_acc s, w) \<and>
             checkpoint s = Some w \<and> max_f1 s \<noteq> NaN \<and>
             (\<forall>j < length h. fst (h ! j) \<noteq> NaN \<longrightarrow> fle (fst (h ! j)) (max_f1 s)) \<and>
             (\<forall>j. k < j \<and> j < length h \<longrightarrow> \<not> fle (max_f1 s) (fst (h ! j))))"

text \<open>
  The statistics as the specification words them, "NaN-ignoring mean/standard-deviation
  over all (example, timestep) entries of that channel", written out over the indices
  of the array: for a channel, the entries over all examples and timesteps that are not
  NaN are counted and averaged, and their standard deviation is the square root of
  their mean squared distance from that average. NaN where the channel has no such
  entry.
\<close>

fun number_of :: "fl \<Rightarrow> real" where
  "number_of (Fin v) = v"
| "number_of NaN = 0"
| "number_of PInf = 0"
| "number_of NInf = 0"

definition n_present :: "arr3 \<Rightarrow> nat \<Rightarrow> nat" where
  "n_present a c = (\<Sum>n<shape0 a. \<Sum>t<shape1 a. if elem a n t c = NaN then 0 else 1)"

definition mean_of_present :: "arr3 \<Rightarrow> nat \<Rightarrow> real" where
  "mean_of_present a c =
     (\<Sum>n<shape0 a. \<Sum>t<shape1 a. number_of (elem a n t c)) / real (n_present a c)"

definition std_of_present :: "arr3 \<Rightarrow> nat \<Rightarrow> real" where
  "std_of_present a c =
     sqrt ((\<Sum>n<shape0 a. \<Sum>t<shape1 a.
              if elem a n t c = NaN then 0
              else (number_of (elem a n t c) - mean_of_present a c)\<^sup>2)
           / real (n_present a c))"

definition mean_stat :: "arr3 \<Rightarrow> nat \<Rightarrow> fl" where
  "mean_stat a c = (if n_present a c = 0 then NaN else Fin (mean_of_present a c))"

definition std_stat :: "arr3 \<Rightarrow> nat \<Rightarrow> fl" where
  "std_stat a c = (if n_present a c = 0 then NaN else Fin (std_of_present a c))"

text \<open>\<open>(x - mean[c]) / (std[c] + 1e-5)\<close> with the statistics of channel \<open>c\<close> of an array.\<close>

definition standard_score :: "arr3 \<Rightarrow> nat \<Rightarrow> real \<Rightarrow> real" where
  "standard_score a c v = (v - mean_of_present a c) / (std_of_present a c + 1 / 100000)"

text \<open>An array whose entries are numbers or NaN.\<close>

definition no_infinity :: "arr3 \<Rightarrow> bool" where
  "no_infinity a =
     (\<forall>n t c. n < shape0 a \<and> t < shape1 a \<and> c < shape2 a \<longrightarrow>
        elem a n t c \<noteq> PInf \<and> elem a n t c \<noteq> NInf)"

text \<open>What \<open>x + pe\<close> followed by \<open>x[isnan(x)] = 0\<close> leaves of one entry.\<close>

definition prepared :: "fl \<Rightarrow> fl \<Rightarrow> fl" where
  "prepared x p = (if isnan (fadd x p) then Fin 0 else fadd x p)"

section \<open>Concrete inputs\<close>

text \<open>
  A stand-in for torch, for runs that can be evaluated: the input batch is already the
  list of probabilities the model outputs, the state counts the optimizer steps, and the
  loss is always 0.
\<close>

definition toy_torch :: "(int, fl list) torch" where
  "toy_torch =
     \<lparr> forward = (\<lambda>w x. x), bce_loss = (\<lambda>out label. Inr (Fin 0)),
       optim_step = (\<lambda>w x label. w + 1), scheduler_step = (\<lambda>w. w) \<rparr>"

definition toy_args :: "nat \<Rightarrow> args" where
  "toy_args n =
     \<lparr> data_len = 30, use_cuda = True, epoch_num = n, train_mean = None, train_std = None \<rparr>"

text \<open>One batch of two examples, both labelled 1: the first predicted 0.9, the second 0.1.\<close>

definition toy_batches :: "(fl list \<times> fl list) list" where
  "toy_batches = [([Fin (9/10), Fin (1/10)], [Fin 1, Fin 1])]"

text \<open>One batch of two examples with no prediction reaching 0.5.\<close>

definition negative_batches :: "(fl list \<times> fl list) list" where
  "negative_batches = [([Fin (1/5), Fin (1/10)], [Fin 1, Fin 0])]"



text \<open>One window of one timestep and two channels, both missing.\<close>

definition missing_window :: arr3 where
  "missing_window = \<lparr> shape0 = 1, shape1 = 1, shape2 = 2, elem = (\<lambda>n t c. NaN) \<rparr>"

text \<open>
  Rounding to the nearest float64, ties to even, for magnitudes below the overflow
  threshold: the exponent of the number (at least -1022, where the subnormal numbers
  begin), the spacing of the float64 numbers at that exponent, and the nearest multiple
  of the spacing.
\<close>

definition ties_to_even :: "real \<Rightarrow> int" where
  "ties_to_even m =
     (let n = \<lfloor>m\<rfloor>; r = m - of_int n
      in if r < 1/2 then n else if 1/2 < r then n + 1 else if even n then n else n + 1)"

definition exponent_of :: "real \<Rightarrow> int" where
  "exponent_of x =
     (if 1 \<le> x then int (floorlog 2 (nat \<lfloor>x\<rfloor>)) - 1
      else - int (floorlog 2 (nat (\<lceil>1 / x\<rceil> - 1))))"

definition spacing :: "int \<Rightarrow> real" where
  "spacing e = (if 52 \<le> e then 2 ^ nat (e - 52) else 1 / 2 ^ nat (52 - e))"

definition nearest_float64 :: "real \<Rightarrow> real" where
  "nearest_float64 x =
     (if x = 0 then 0
      else let u = spacing (max (exponent_of \<bar>x\<bar>) (- 1022))
           in sgn x * of_int (ties_to_even (\<bar>x\<bar> / u)) * u)"

text \<open>A machine that rounds so and on which \<open>torch.save\<close> succeeds.\<close>

definition float64_machine :: "int machine" where
  "float64_machine = \<lparr> to_float64 = nearest_float64, torch_save = (\<lambda>w. None) \<rparr>"

text \<open>
  A stand-in for torch whose outputs are scripted: the input batch holds, for every
  value of the optimizer step counter, the probabilities the model outputs at that
  count.
\<close>

definition scripted_torch :: "(int, fl list list) torch" where
  "scripted_torch =
     \<lparr> forward = (\<lambda>w x. if 0 \<le> w \<and> nat w < length x then x ! nat w else []),
       bce_loss = (\<lambda>out label. Inr (Fin 0)),
       optim_step = (\<lambda>w x label. w + 1), scheduler_step = (\<lambda>w. w) \<rparr>"

text \<open>
  Six examples, four of them positive. At step counts 0, 1 and 3 the first two are
  predicted positive (confusion tp 2, tn 2, fp 0, fn 2); at step count 2 all but the
  fourth are (tp 3, tn 0, fp 2, fn 1). Both confusions have the F1 2/3 in the reals; in
  float64 the first gives 0.6666666666666666 and the second 0.6666666666666665.
\<close>

definition few_positive :: "fl list" where
  "few_positive = [Fin (9/10), Fin (9/10), Fin (1/10), Fin (1/10), Fin (1/10), Fin (1/10)]"

definition many_positive :: "fl list" where
  "many_positive = [Fin (9/10), Fin (9/10), Fin (9/10), Fin (1/10), Fin (9/10), Fin (9/10)]"

definition scripted_batches :: "(fl list list \<times> fl list) list" where
  "scripted_batches =
     [([few_positive, few_positive, many_positive, few_positive],
       [Fin 1, Fin 1, Fin 1, Fin 1, Fin 0, Fin 0])]"

text \<open>
  Arrays of two timesteps and two channels. Training: two windows; channel 0 holds
  1, NaN, 3, 5 and channel 1 holds 2, 2, 6, 6. Held out: one window; channel 0 holds
  7, NaN and channel 1 holds 10, 4.
\<close>

definition gappy_train_array :: arr3 where
  "gappy_train_array =
     \<lparr> shape0 = 2, shape1 = 2, shape2 = 2,
       elem = (\<lambda>n t c. if c = 0
                        then (if n = 0 then (if t = 0 then Fin 1 else NaN)
                              else (if t = 0 then Fin 3 else Fin 5))
                        else (if n = 0 then Fin 2 else Fin 6)) \<rparr>"

definition gappy_heldout_array :: arr3 where
  "gappy_heldout_array =
     \<lparr> shape0 = 1, shape1 = 2, shape2 = 2,
       elem = (\<lambda>n t c. if c = 0 then (if t = 0 then Fin 7 else NaN)
                        else (if t = 0 then Fin 10 else Fin 4)) \<rparr>"

section \<open>Facts about floats and binarization\<close>

lemma feq_Fin [simp]: "feq x (Fin v) \<longleftrightarrow> x = Fin v"
  by (auto simp: feq_def)

lemma fle_NaN [simp]: "\<not> fle x NaN" "\<not> fle NaN x"
  by (cases x; simp add: fle_def)+

lemma fle_Fin [simp]: "fle (Fin a) (Fin b) \<longleftrightarrow> a \<le> b"
  by (simp add: fle_def)

lemma fadd_NaN [simp]: "fadd NaN p = NaN" "fadd x NaN = NaN"
  by (cases x; simp)+

lemma binarize_cases: "binarize x = Fin 1 \<or> binarize x = Fin 0"
  by (simp add: binarize_def)

lemma binarize_one_iff: "binarize x = Fin 1 \<longleftrightarrow> fge x (Fin (1/2))"
  by (simp add: binarize_def)

lemma binarize_zero_iff: "binarize x = Fin 0 \<longleftrightarrow> \<not> fge x (Fin (1/2))"
  by (simp add: binarize_def)

section \<open>The confusion matrix counts every example once\<close>

lemma count_select_maps:
  "count_eq (select_where (map f rs) (map h rs) (Fin v)) (Fin u) =
     length (filter (\<lambda>r. f r = Fin u \<and> h r = Fin v) rs)"
  by (induction rs) (auto simp: select_where_def count_eq_def)

lemma four_way:
  "\<forall>r \<in> set rs. (f r = Fin 0 \<or> f r = Fin 1) \<and> (h r = Fin 0 \<or> h r = Fin 1) \<Longrightarrow>
   length (filter (\<lambda>r. f r = Fin 1 \<and> h r = Fin 1) rs) +
   length (filter (\<lambda>r. f r = Fin 0 \<and> h r = Fin 0) rs) +
   length (filter (\<lambda>r. f r = Fin 1 \<and> h r = Fin 0) rs) +
   length (filter (\<lambda>r. f r = Fin 0 \<and> h r = Fin 1) rs) = length rs"
proof (induction rs)
  case Nil
  show ?case by simp
next
  case (Cons r rs)
  from Cons.prems have here: "(f r = Fin 0 \<or> f r = Fin 1) \<and> (h r = Fin 0 \<or> h r = Fin 1)"
    by simp
  from Cons.prems have "\<forall>r \<in> set rs. (f r = Fin 0 \<or> f r = Fin 1) \<and> (h r = Fin 0 \<or> h r = Fin 1)"
    by simp
  note ih = Cons.IH [OF this]
  from here consider "f r = Fin 0 \<and> h r = Fin 0" | "f r = Fin 0 \<and> h r = Fin 1"
    | "f r = Fin 1 \<and> h r = Fin 0" | "f r = Fin 1 \<and> h r = Fin 1"
    by blast
  then show ?case
  proof cases
    case 1 with ih show ?thesis by simp
  next
    case 2 with ih show ?thesis by simp
  next
    case 3 with ih show ?thesis by simp
  next
    case 4 with ih show ?thesis by simp
  qed
qed

lemma dev_confusion_by_threshold: "dev_confusion rs = by_threshold rs"
  unfolding dev_confusion_def confusion_of_def by_threshold_def
  by (simp add: count_select_maps case_prod_unfold binarize_one_iff binarize_zero_iff conj_commute)

lemma test_confusion_by_threshold: "test_confusion rs = by_threshold rs"
  using dev_confusion_by_threshold [of rs] by (simp add: dev_confusion_def test_confusion_def)

lemma train_confusion_binarized: "train_confusion (map binarize_row rs) = by_threshold rs"
proof -
  have "train_confusion (map binarize_row rs) = dev_confusion rs"
    by (simp add: dev_confusion_def train_confusion_def binarize_row_def o_def)
  then show ?thesis by (simp add: dev_confusion_by_threshold)
qed

lemma count_sum_dev_confusion: "count_sum (dev_confusion rs) = length rs"
proof -
  have "\<forall>r \<in> set rs. ((binarize \<circ> fst) r = Fin 0 \<or> (binarize \<circ> fst) r = Fin 1) \<and>
                      ((binarize \<circ> snd) r = Fin 0 \<or> (binarize \<circ> snd) r = Fin 1)"
    using binarize_cases by auto
  from four_way [OF this] show ?thesis
    unfolding count_sum_def dev_confusion_def confusion_of_def
    by (simp add: count_select_maps)
qed

lemma count_sum_by_threshold: "count_sum (by_threshold rs) = length rs"
  using count_sum_dev_confusion [of rs] by (simp add: dev_confusion_by_threshold)

lemma binarize_idem: "fge (binarize x) (Fin (1/2)) \<longleftrightarrow> fge x (Fin (1/2))"
  by (simp add: binarize_def)

lemma by_threshold_binarized: "by_threshold (map binarize_row rs) = by_threshold rs"
  by (simp add: by_threshold_def filter_map o_def case_prod_unfold binarize_row_def binarize_idem)

section \<open>The rows a pass collects\<close>

lemma zip_binarize: "zip (map binarize xs) (map binarize ys) = map binarize_row (zip xs ys)"
  by (simp add: zip_map_map binarize_row_def case_prod_unfold)

lemma np_c_binarize:
  "np_c (map binarize out) (map binarize lab) = Inr rows \<Longrightarrow>
     rows = map binarize_row (zip out lab) \<and> length (zip out lab) = length lab"
  by (auto simp: np_c_def zip_binarize split: if_splits)

lemma train_batch_rows:
  assumes "train_batch T g (w, ls, rs) b = Inr (w', ls', rs')"
  shows "w' = optim_step T w (fst b) (snd b) \<and>
         rs' = rs @ map binarize_row (zip (forward T w (fst b)) (snd b)) \<and>
         length (zip (forward T w (fst b)) (snd b)) = length (snd b)"
  using assms
  by (cases b) (auto simp: train_batch_def Let_def split: sum.splits dest!: np_c_binarize)

lemma train_pass_rows:
  "train_pass T g bs (w, ls, rs) = Inr (w', ls', rs') \<Longrightarrow>
     rs' = rs @ map binarize_row (train_outputs T w bs) \<and>
     length (train_outputs T w bs) = n_examples bs"
proof (induction bs arbitrary: w ls rs)
  case Nil
  then show ?case by (simp add: n_examples_def)
next
  case (Cons b bs)
  from Cons.prems obtain w1 ls1 rs1 where
    b: "train_batch T g (w, ls, rs) b = Inr (w1, ls1, rs1)" and
    r: "train_pass T g bs (w1, ls1, rs1) = Inr (w', ls', rs')"
    by (auto split: sum.splits)
  from train_batch_rows [OF b] Cons.IH [OF r] show ?case
    by (simp add: n_examples_def)
qed

lemma dev_batch_rows:
  assumes "dev_batch T g w (ls, rs) b = Inr (ls', rs')"
  shows "rs' = rs @ map binarize_row (zip (forward T w (fst b)) (snd b)) \<and>
         length (zip (forward T w (fst b)) (snd b)) = length (snd b)"
  using assms
  by (cases b) (auto simp: dev_batch_def Let_def split: sum.splits dest!: np_c_binarize)

lemma dev_pass_rows:
  "dev_pass T g w bs (ls, rs) = Inr (ls', rs') \<Longrightarrow>
     rs' = rs @ map binarize_row (dev_outputs T w bs) \<and>
     length (dev_outputs T w bs) = n_examples bs"
proof (induction bs arbitrary: ls rs)
  case Nil
  then show ?case by (simp add: n_examples_def dev_outputs_def)
next
  case (Cons b bs)
  from Cons.prems obtain ls1 rs1 where
    b: "dev_batch T g w (ls, rs) b = Inr (ls1, rs1)" and
    r: "dev_pass T g w bs (ls1, rs1) = Inr (ls', rs')"
    by (auto split: sum.splits)
  from dev_batch_rows [OF b] Cons.IH [OF r] show ?case
    by (simp add: n_examples_def dev_outputs_def)
qed

lemma toy_train_pass:
  "train_pass toy_torch (toy_args n) toy_batches (0, [], []) =
     Inr (1, [Fin 0], [(Fin 1, Fin 1), (Fin 0, Fin 1)])"
  by (simp add: toy_torch_def toy_args_def toy_batches_def train_batch_def loss_item_def
      np_c_def binarize_def)

lemma toy_dev_pass:
  "dev_pass toy_torch (toy_args n) w toy_batches ([], []) =
     Inr ([Fin 0], [(Fin 1, Fin 1), (Fin 0, Fin 1)])"
  by (simp add: toy_torch_def toy_args_def toy_batches_def dev_batch_def loss_item_def
      np_c_def binarize_def)

text \<open>
  Claim C6. In every epoch the four counts of the training metrics add up to the number
  of examples the training pass went through, and those of the development metrics to
  the number of examples of the development pass; the counts the test metrics compute
  from an array of result rows add up to its number of rows.
\<close>

theorem confusion_counts_sum_to_split_size:
  "(train_pass T g train_data (w, [], []) = Inr (w', losses, results) \<longrightarrow>
      tp (train_confusion results) + tn (train_confusion results) +
      fp (train_confusion results) + fn (train_confusion results) = n_examples train_data) \<and>
   (dev_pass T g w dev_data ([], []) = Inr (dev_losses, dev_results) \<longrightarrow>
      tp (dev_confusion dev_results) + tn (dev_confusion dev_results) +
      fp (dev_confusion dev_results) + fn (dev_confusion dev_results) = n_examples dev_data) \<and>
   tp (test_confusion test_results) + tn (test_confusion test_results) +
   fp (test_confusion test_results) + fn (test_confusion test_results) = length test_results"
proof (intro conjI impI)
  assume "train_pass T g train_data (w, [], []) = Inr (w', losses, results)"
  from train_pass_rows [OF this]
  have "results = map binarize_row (train_outputs T w train_data)"
    and "length (train_outputs T w train_data) = n_examples train_data"
    by simp_all
  then have "count_sum (train_confusion results) = n_examples train_data"
    by (simp add: train_confusion_binarized count_sum_by_threshold)
  then show "tp (train_confusion results) + tn (train_confusion results) +
      fp (train_confusion results) + fn (train_confusion results) = n_examples train_data"
    by (simp add: count_sum_def)
next
  assume "dev_pass T g w dev_data ([], []) = Inr (dev_losses, dev_results)"
  from dev_pass_rows [OF this]
  have "length dev_results = n_examples dev_data"
    by simp
  then have "count_sum (dev_confusion dev_results) = n_examples dev_data"
    by (simp add: count_sum_dev_confusion)
  then show "tp (dev_confusion dev_results) + tn (dev_confusion dev_results) +
      fp (dev_confusion dev_results) + fn (dev_confusion dev_results) = n_examples dev_data"
    by (simp add: count_sum_def)
next
  have "count_sum (test_confusion test_results) = length test_results"
    by (simp add: test_confusion_by_threshold count_sum_by_threshold)
  then show "tp (test_confusion test_results) + tn (test_confusion test_results) +
      fp (test_confusion test_results) + fn (test_confusion test_results) = length test_results"
    by (simp add: count_sum_def)
qed

theorem confusion_counts_sum_to_split_size_witness:
  "train_pass toy_torch (toy_args 1) toy_batches (0, [], []) =
     Inr (1, [Fin 0], [(Fin 1, Fin 1), (Fin 0, Fin 1)]) \<and>
   dev_pass toy_torch (toy_args 1) 0 toy_batches ([], []) =
     Inr ([Fin 0], [(Fin 1, Fin 1), (Fin 0, Fin 1)]) \<and>
   tp (train_confusion [(Fin 1, Fin 1), (Fin 0, Fin 1)]) +
   tn (train_confusion [(Fin 1, Fin 1), (Fin 0, Fin 1)]) +
   fp (train_confusion [(Fin 1, Fin 1), (Fin 0, Fin 1)]) +
   fn (train_confusion [(Fin 1, Fin 1), (Fin 0, Fin 1)]) = 2 \<and>
   tp (dev_confusion [(Fin 1, Fin 1), (Fin 0, Fin 1)]) +
   tn (dev_confusion [(Fin 1, Fin 1), (Fin 0, Fin 1)]) +
   fp (dev_confusion [(Fin 1, Fin 1), (Fin 0, Fin 1)]) +
   fn (dev_confusion [(Fin 1, Fin 1), (Fin 0, Fin 1)]) = 2"
proof -
  have n: "n_examples toy_batches = 2"
    by (simp add: n_examples_def toy_batches_def)
  show ?thesis
    using confusion_counts_sum_to_split_size
      [of toy_torch "toy_args 1" toy_batches 0 1 "[Fin 0]" "[(Fin 1, Fin 1), (Fin 0, Fin 1)]"
          toy_batches "[Fin 0]" "[(Fin 1, Fin 1), (Fin 0, Fin 1)]" "[]"]
      toy_train_pass [of 1] toy_dev_pass [of 1 0]
    by (simp add: n)
qed


text \<open>
  Claim C9. A value is binarized to 1 exactly when it is \<open>>= 0.5\<close>, so 0.5 itself counts as
  positive (and NaN as negative). The confusion matrix of the training metrics and the
  one of the development metrics are the counts, by that rule applied to prediction and
  label alike, over the raw outputs and labels of the pass; the development and test
  metric code applies the rule once more to whatever rows it is given.
\<close>

theorem binarization_threshold:
  "(binarize x = Fin 1 \<longleftrightarrow> fge x (Fin (1/2))) \<and>
   (binarize x = Fin 0 \<longleftrightarrow> \<not> fge x (Fin (1/2))) \<and>
   binarize (Fin (1/2)) = Fin 1 \<and>
   (train_pass T g train_data (w, [], []) = Inr (w', losses, results) \<longrightarrow>
      results = map binarize_row (train_outputs T w train_data) \<and>
      train_confusion results = by_threshold (train_outputs T w train_data)) \<and>
   (dev_pass T g w dev_data ([], []) = Inr (dev_losses, dev_results) \<longrightarrow>
      dev_results = map binarize_row (dev_outputs T w dev_data) \<and>
      dev_confusion dev_results = by_threshold (dev_outputs T w dev_data)) \<and>
   dev_confusion rows = by_threshold rows \<and>
   test_confusion rows = by_threshold rows"
proof (intro conjI impI)
  show "binarize x = Fin 1 \<longleftrightarrow> fge x (Fin (1/2))" by (rule binarize_one_iff)
  show "binarize x = Fin 0 \<longleftrightarrow> \<not> fge x (Fin (1/2))" by (rule binarize_zero_iff)
  show "binarize (Fin (1/2)) = Fin 1" by (simp add: binarize_def)
  show "dev_confusion rows = by_threshold rows" by (rule dev_confusion_by_threshold)
  show "test_confusion rows = by_threshold rows" by (rule test_confusion_by_threshold)
next
  assume "train_pass T g train_data (w, [], []) = Inr (w', losses, results)"
  from train_pass_rows [OF this]
  show r: "results = map binarize_row (train_outputs T w train_data)" by simp
  show "train_confusion results = by_threshold (train_outputs T w train_data)"
    unfolding r by (rule train_confusion_binarized)
next
  assume "dev_pass T g w dev_data ([], []) = Inr (dev_losses, dev_results)"
  from dev_pass_rows [OF this]
  show r: "dev_results = map binarize_row (dev_outputs T w dev_data)" by simp
  show "dev_confusion dev_results = by_threshold (dev_outputs T w dev_data)"
    unfolding r by (simp add: dev_confusion_by_threshold by_threshold_binarized)
qed

theorem binarization_threshold_witness:
  "train_pass toy_torch (toy_args 1) toy_batches (0, [], []) =
     Inr (1, [Fin 0], [(Fin 1, Fin 1), (Fin 0, Fin 1)]) \<and>
   dev_pass toy_torch (toy_args 1) 0 toy_batches ([], []) =
     Inr ([Fin 0], [(Fin 1, Fin 1), (Fin 0, Fin 1)]) \<and>
   train_outputs toy_torch 0 toy_batches = [(Fin (9/10), Fin 1), (Fin (1/10), Fin 1)] \<and>
   train_confusion [(Fin 1, Fin 1), (Fin 0, Fin 1)] =
     by_threshold [(Fin (9/10), Fin 1), (Fin (1/10), Fin 1)] \<and>
   dev_confusion [(Fin 1, Fin 1), (Fin 0, Fin 1)] =
     by_threshold [(Fin (9/10), Fin 1), (Fin (1/10), Fin 1)] \<and>
   by_threshold [(Fin (9/10), Fin 1), (Fin (1/10), Fin 1)] = \<lparr> tp = 1, tn = 0, fp = 0, fn = 1 \<rparr>"
proof -
  have t: "train_outputs toy_torch 0 toy_batches = [(Fin (9/10), Fin 1), (Fin (1/10), Fin 1)]"
    by (simp add: toy_torch_def toy_batches_def)
  have d: "dev_outputs toy_torch 0 toy_batches = [(Fin (9/10), Fin 1), (Fin (1/10), Fin 1)]"
    by (simp add: dev_outputs_def toy_torch_def toy_batches_def)
  have b: "by_threshold [(Fin (9/10), Fin 1), (Fin (1/10), Fin 1)] = \<lparr> tp = 1, tn = 0, fp = 0, fn = 1 \<rparr>"
    by (simp add: by_threshold_def)
  note th = binarization_threshold
      [of "Fin (1/2)" toy_torch "toy_args 1" toy_batches 0 1 "[Fin 0]"
          "[(Fin 1, Fin 1), (Fin 0, Fin 1)]" toy_batches "[Fin 0]"
          "[(Fin 1, Fin 1), (Fin 0, Fin 1)]" "[]"]
  have tc: "train_confusion [(Fin 1, Fin 1), (Fin 0, Fin 1)] =
      by_threshold (train_outputs toy_torch 0 toy_batches)"
    using th toy_train_pass [of 1] by blast
  have dc: "dev_confusion [(Fin 1, Fin 1), (Fin 0, Fin 1)] =
      by_threshold (dev_outputs toy_torch 0 toy_batches)"
    using th toy_dev_pass [of 1 0] by blast
  from tc dc toy_train_pass [of 1] toy_dev_pass [of 1 0] t b show ?thesis
    unfolding t d by blast
qed

section \<open>Degenerate metrics\<close>

lemma ratio_cancel:
  fixes X Y C :: real
  assumes "C \<noteq> 0"
  shows "2 * (X / C) / (Y / C) = 2 * X / Y"
  using assms by simp

lemma harmonic_real:
  fixes t p n :: real
  assumes "0 < t" "0 \<le> p" "0 \<le> n"
  shows "2 * (t / (t + p) * (t / (t + n))) / (t / (t + p) + t / (t + n)) = 2 * t / (2 * t + p + n)"
proof -
  have a: "t + p \<noteq> 0" and b: "t + n \<noteq> 0" using assms by auto
  then have ab: "(t + p) * (t + n) \<noteq> 0" by simp
  have s: "t / (t + p) + t / (t + n) = t * (2 * t + p + n) / ((t + p) * (t + n))"
    using a b by (simp add: field_simps)
  have m: "t / (t + p) * (t / (t + n)) = t * t / ((t + p) * (t + n))"
    by simp
  have "2 * (t * t / ((t + p) * (t + n))) / (t * (2 * t + p + n) / ((t + p) * (t + n)))
        = 2 * (t * t) / (t * (2 * t + p + n))"
    by (rule ratio_cancel [OF ab])
  also have "\<dots> = 2 * t / (2 * t + p + n)"
    using assms(1) by simp
  finally show ?thesis
    unfolding s m .
qed

lemma precision_closed:
  "precision_of c = (if tp c + fp c = 0 then NaN else Fin (real (tp c) / real (tp c + fp c)))"
  by (simp add: precision_of_def idiv_def)

lemma recall_closed:
  "recall_of c = (if tp c + fn c = 0 then NaN else Fin (real (tp c) / real (tp c + fn c)))"
  by (simp add: recall_of_def idiv_def)

lemma f1_closed:
  "f1_of c = (if tp c = 0 then NaN
              else Fin (2 * real (tp c) / (2 * real (tp c) + real (fp c) + real (fn c))))"
proof (cases "tp c = 0")
  case True
  then show ?thesis by (simp add: f1_of_def precision_of_def recall_of_def idiv_def)
next
  case False
  then have t: "0 < real (tp c)" by simp
  have pr: "precision_of c = Fin (real (tp c) / (real (tp c) + real (fp c)))"
    using False by (simp add: precision_of_def idiv_def)
  have re: "recall_of c = Fin (real (tp c) / (real (tp c) + real (fn c)))"
    using False by (simp add: recall_of_def idiv_def)
  have "0 < real (tp c) / (real (tp c) + real (fp c))"
    using t by (intro divide_pos_pos add_pos_nonneg) auto
  moreover have "0 < real (tp c) / (real (tp c) + real (fn c))"
    using t by (intro divide_pos_pos add_pos_nonneg) auto
  ultimately have nz:
    "real (tp c) / (real (tp c) + real (fp c)) + real (tp c) / (real (tp c) + real (fn c)) \<noteq> 0"
    by linarith
  show ?thesis
    using False nz harmonic_real [OF t, of "real (fp c)" "real (fn c)"]
    by (simp add: f1_of_def pr re)
qed

text \<open>
  Claim C7, as the code has it. The metric computation has no failing branch (its
  divisions are numpy divisions, which give NaN for \<open>0/0\<close>) and no guard either: precision
  is NaN exactly when nothing was predicted positive, recall is NaN exactly when nothing
  is actually positive, and F1 is NaN exactly when there is no true positive, which
  includes the case precision = recall = 0; otherwise F1 is \<open>2 tp / (2 tp + fp + fn)\<close>.
\<close>

theorem degenerate_metrics_are_nan:
  "precision_of c = (if tp c + fp c = 0 then NaN else Fin (real (tp c) / real (tp c + fp c))) \<and>
   recall_of c = (if tp c + fn c = 0 then NaN else Fin (real (tp c) / real (tp c + fn c))) \<and>
   f1_of c = (if tp c = 0 then NaN
              else Fin (2 * real (tp c) / (2 * real (tp c) + real (fp c) + real (fn c))))"
  using precision_closed [of c] recall_closed [of c] f1_closed [of c] by simp

text \<open>
  One example predicted positive and actually negative, one predicted negative and
  actually positive: precision and recall are both 0, and F1 is NaN, not 0.
\<close>

theorem zero_precision_and_recall_give_nan_f1:
  "dev_confusion [(Fin (9/10), Fin 0), (Fin (1/10), Fin 1)] = \<lparr> tp = 0, tn = 0, fp = 1, fn = 1 \<rparr> \<and>
   precision_of \<lparr> tp = 0, tn = 0, fp = 1, fn = 1 \<rparr> = Fin 0 \<and>
   recall_of \<lparr> tp = 0, tn = 0, fp = 1, fn = 1 \<rparr> = Fin 0 \<and>
   f1_of \<lparr> tp = 0, tn = 0, fp = 1, fn = 1 \<rparr> = NaN \<and>
   f1_of \<lparr> tp = 0, tn = 0, fp = 1, fn = 1 \<rparr> \<noteq> Fin 0"
  by (simp add: dev_confusion_by_threshold by_threshold_def f1_of_def precision_of_def
      recall_of_def idiv_def)



section \<open>Model selection over the epochs\<close>

lemma fle_trans: "fle x y \<Longrightarrow> fle y z \<Longrightarrow> fle x z"
  by (cases x; cases y; cases z) (simp_all add: fle_def)

lemma fle_total: "x \<noteq> NaN \<Longrightarrow> y \<noteq> NaN \<Longrightarrow> fle x y \<or> fle y x"
  by (cases x; cases y) (auto simp: fle_def)

lemma fle_refl: "x \<noteq> NaN \<Longrightarrow> fle x x"
  by (cases x) (simp_all add: fle_def)

lemma f1_value_zero_le: "f1_value f \<Longrightarrow> f \<noteq> NaN \<Longrightarrow> fle (Fin 0) f"
  by (simp add: f1_value_def fle_def)

text \<open>
  With a rounding that keeps what is \<open>>= 0\<close> so, the float64 metrics are NaN or \<open>>= 0\<close>.
\<close>

lemma fdiv64_value:
  assumes "\<forall>x. 0 \<le> x \<longrightarrow> 0 \<le> rnd x" "f1_value x" "f1_value y"
  shows "f1_value (fdiv64 rnd x y)"
  using assms by (cases x; cases y) (auto simp: f1_value_def fdiv64_def)

lemma fmul64_value:
  assumes "\<forall>x. 0 \<le> x \<longrightarrow> 0 \<le> rnd x" "f1_value x" "f1_value y"
  shows "f1_value (fmul64 rnd x y)"
  using assms by (cases x; cases y) (auto simp: f1_value_def fmul64_def)

lemma fadd64_value:
  assumes "\<forall>x. 0 \<le> x \<longrightarrow> 0 \<le> rnd x" "f1_value x" "f1_value y"
  shows "f1_value (fadd64 rnd x y)"
  using assms by (cases x; cases y) (auto simp: f1_value_def fadd64_def)

lemma rounded_count_value:
  assumes "\<forall>x. 0 \<le> x \<longrightarrow> 0 \<le> rnd x" "0 \<le> v"
  shows "f1_value (Fin (rnd v))"
  using assms by (simp add: f1_value_def)

lemma idiv64_value:
  assumes "\<forall>x. 0 \<le> x \<longrightarrow> 0 \<le> rnd x"
  shows "f1_value (idiv64 rnd a b)"
  unfolding idiv64_def
  by (intro fdiv64_value [OF assms] rounded_count_value [OF assms]) simp_all

lemma f1_64_value:
  assumes "\<forall>x. 0 \<le> x \<longrightarrow> 0 \<le> rnd x"
  shows "f1_value (f1_64 rnd c)"
  unfolding f1_64_def precision64_def recall64_def
  by (intro fdiv64_value [OF assms] fmul64_value [OF assms] fadd64_value [OF assms]
      idiv64_value [OF assms] rounded_count_value [OF assms]) simp

lemma epoch_unfold:
  assumes "epoch T P g tr dv step s = Inr s'"
  obtains w1 ls rs dls dres where
    "train_pass T g tr (model s, [], []) = Inr (w1, ls, rs)"
    "dev_pass T g (scheduler_step T w1) dv ([], []) = Inr (dls, dres)"
    "fle (max_f1 s) (f1_64 (to_float64 P) (dev_confusion dres)) \<longrightarrow>
       torch_save P (scheduler_step T w1) = None"
    "s' = (let w2 = scheduler_step T w1; c = dev_confusion dres;
               s1 = s\<lparr> model := w2, i_bound := (i_bound s \<or> tr \<noteq> [] \<or> dv \<noteq> []),
                       history := history s @
                         [(f1_64 (to_float64 P) c, acc64 (to_float64 P) c, w2)] \<rparr>
           in if fle (max_f1 s) (f1_64 (to_float64 P) c)
              then s1\<lparr> max_f1 := f1_64 (to_float64 P) c, max_f1_acc := acc64 (to_float64 P) c,
                       best_epoch := int step, checkpoint := Some w2 \<rparr>
              else s1)"
  using assms unfolding epoch_def
  by (auto simp: Let_def split: sum.splits prod.splits if_splits option.splits)

lemma epoch_step:
  assumes "epoch T P g tr dv step s = Inr s'"
    and "\<forall>x. 0 \<le> x \<longrightarrow> 0 \<le> to_float64 P x"
  shows "\<exists>f a w. dev_metrics_of T P g dv (f, a, w) \<and> f1_value f \<and>
           history s' = history s @ [(f, a, w)] \<and> model s' = w \<and>
           (if fle (max_f1 s) f
            then max_f1 s' = f \<and> max_f1_acc s' = a \<and> best_epoch s' = int step \<and>
                 checkpoint s' = Some w \<and> torch_save P w = None
            else max_f1 s' = max_f1 s \<and> max_f1_acc s' = max_f1_acc s \<and>
                 best_epoch s' = best_epoch s \<and> checkpoint s' = checkpoint s)"
proof -
  from assms(1) obtain w1 dls dres where
    dp: "dev_pass T g (scheduler_step T w1) dv ([], []) = Inr (dls, dres)" and
    sv: "fle (max_f1 s) (f1_64 (to_float64 P) (dev_confusion dres)) \<longrightarrow>
       torch_save P (scheduler_step T w1) = None" and
    s': "s' = (let w2 = scheduler_step T w1; c = dev_confusion dres;
               s1 = s\<lparr> model := w2, i_bound := (i_bound s \<or> tr \<noteq> [] \<or> dv \<noteq> []),
                       history := history s @
                         [(f1_64 (to_float64 P) c, acc64 (to_float64 P) c, w2)] \<rparr>
           in if fle (max_f1 s) (f1_64 (to_float64 P) c)
              then s1\<lparr> max_f1 := f1_64 (to_float64 P) c, max_f1_acc := acc64 (to_float64 P) c,
                       best_epoch := int step, checkpoint := Some w2 \<rparr>
              else s1)"
    by (rule epoch_unfold)
  let ?c = "dev_confusion dres"
  let ?w = "scheduler_step T w1"
  let ?f = "f1_64 (to_float64 P) ?c"
  let ?a = "acc64 (to_float64 P) ?c"
  have m: "dev_metrics_of T P g dv (?f, ?a, ?w)"
    unfolding dev_metrics_of_def using dp by auto
  have "dev_metrics_of T P g dv (?f, ?a, ?w) \<and> f1_value ?f \<and>
           history s' = history s @ [(?f, ?a, ?w)] \<and> model s' = ?w \<and>
           (if fle (max_f1 s) ?f
            then max_f1 s' = ?f \<and> max_f1_acc s' = ?a \<and> best_epoch s' = int step \<and>
                 checkpoint s' = Some ?w \<and> torch_save P ?w = None
            else max_f1 s' = max_f1 s \<and> max_f1_acc s' = max_f1_acc s \<and>
                 best_epoch s' = best_epoch s \<and> checkpoint s' = checkpoint s)"
    using m sv f1_64_value [OF assms(2), of ?c] by (simp add: s' Let_def)
  then show ?thesis by blast
qed

lemma run_epochs_snoc:
  "run_epochs T P g tr dv (steps @ [k]) s =
     (case run_epochs T P g tr dv steps s of
        Inl e \<Rightarrow> Inl e
      | Inr s1 \<Rightarrow> epoch T P g (tr k) dv k s1)"
  by (induction steps arbitrary: s) (auto split: sum.splits)

lemma selected_step:
  assumes sel: "selected disk s"
    and vals: "\<forall>e \<in> set (history s). f1_value (fst e)"
    and f: "f1_value f"
    and h': "history s' = history s @ [(f, a, w)]"
    and upd: "if fle (max_f1 s) f
            then max_f1 s' = f \<and> max_f1_acc s' = a \<and> best_epoch s' = int (length (history s))
                 \<and> checkpoint s' = Some w
            else max_f1 s' = max_f1 s \<and> max_f1_acc s' = max_f1_acc s \<and> best_epoch s' = best_epoch s
                 \<and> checkpoint s' = checkpoint s"
  shows "selected disk s'"
proof -
  let ?h = "history s"
  let ?n = "length ?h"
  show ?thesis
  proof (cases "\<forall>e \<in> set ?h. fst e = NaN")
    case allnan: True
    with sel have s0: "best_epoch s = - 1" "max_f1 s = Fin 0" "max_f1_acc s = Fin 0"
      "checkpoint s = disk"
      by (simp_all add: selected_def Let_def)
    show ?thesis
    proof (cases "f = NaN")
      case True
      with upd s0 allnan show ?thesis
        by (simp add: selected_def Let_def h')
    next
      case False
      with f have "fle (Fin 0) f" by (rule f1_value_zero_le)
      with upd s0 have u: "max_f1 s' = f" "max_f1_acc s' = a" "best_epoch s' = int ?n"
        "checkpoint s' = Some w"
        by simp_all
      have old: "\<And>j. j < ?n \<Longrightarrow> fst (?h ! j) = NaN"
        using allnan by simp
      have ff: "fle f f" using False by (rule fle_refl)
      have "?n < Suc ?n \<and>
             best_epoch s' = int ?n \<and> (?h @ [(f, a, w)]) ! ?n = (max_f1 s', max_f1_acc s', w) \<and>
             checkpoint s' = Some w \<and> max_f1 s' \<noteq> NaN \<and>
             (\<forall>j < Suc ?n. fst ((?h @ [(f, a, w)]) ! j) \<noteq> NaN \<longrightarrow>
                 fle (fst ((?h @ [(f, a, w)]) ! j)) (max_f1 s')) \<and>
             (\<forall>j. ?n < j \<and> j < Suc ?n \<longrightarrow> \<not> fle (max_f1 s') (fst ((?h @ [(f, a, w)]) ! j)))"
        using u False old ff by (auto simp: less_Suc_eq nth_append)
      then have "\<exists>k < Suc ?n. \<exists>w'.
             best_epoch s' = int k \<and> (?h @ [(f, a, w)]) ! k = (max_f1 s', max_f1_acc s', w') \<and>
             checkpoint s' = Some w' \<and> max_f1 s' \<noteq> NaN \<and>
             (\<forall>j < Suc ?n. fst ((?h @ [(f, a, w)]) ! j) \<noteq> NaN \<longrightarrow>
                 fle (fst ((?h @ [(f, a, w)]) ! j)) (max_f1 s')) \<and>
             (\<forall>j. k < j \<and> j < Suc ?n \<longrightarrow> \<not> fle (max_f1 s') (fst ((?h @ [(f, a, w)]) ! j)))"
        by blast
      then show ?thesis
        using False by (simp add: selected_def Let_def h')
    qed
  next
    case somenum: False
    with sel obtain k w0 where k: "k < ?n" "best_epoch s = int k"
      "?h ! k = (max_f1 s, max_f1_acc s, w0)" "checkpoint s = Some w0" "max_f1 s \<noteq> NaN"
      and le: "\<And>j. j < ?n \<Longrightarrow> fst (?h ! j) \<noteq> NaN \<Longrightarrow> fle (fst (?h ! j)) (max_f1 s)"
      and later: "\<And>j. k < j \<Longrightarrow> j < ?n \<Longrightarrow> \<not> fle (max_f1 s) (fst (?h ! j))"
      unfolding selected_def Let_def by auto
    have some': "\<not> (\<forall>e \<in> set (?h @ [(f, a, w)]). fst e = NaN)"
      using somenum by auto
    show ?thesis
    proof (cases "fle (max_f1 s) f")
      case False
      with upd have u: "max_f1 s' = max_f1 s" "max_f1_acc s' = max_f1_acc s"
        "best_epoch s' = best_epoch s" "checkpoint s' = checkpoint s"
        by simp_all
      have keep: "f \<noteq> NaN \<Longrightarrow> fle f (max_f1 s)"
        using False fle_total [OF k(5), of f] by blast
      have "k < Suc ?n \<and>
             best_epoch s' = int k \<and> (?h @ [(f, a, w)]) ! k = (max_f1 s', max_f1_acc s', w0) \<and>
             checkpoint s' = Some w0 \<and> max_f1 s' \<noteq> NaN \<and>
             (\<forall>j < Suc ?n. fst ((?h @ [(f, a, w)]) ! j) \<noteq> NaN \<longrightarrow>
                 fle (fst ((?h @ [(f, a, w)]) ! j)) (max_f1 s')) \<and>
             (\<forall>j. k < j \<and> j < Suc ?n \<longrightarrow> \<not> fle (max_f1 s') (fst ((?h @ [(f, a, w)]) ! j)))"
        using u k le later False keep by (auto simp: less_Suc_eq nth_append)
      then have "\<exists>k < Suc ?n. \<exists>w'.
             best_epoch s' = int k \<and> (?h @ [(f, a, w)]) ! k = (max_f1 s', max_f1_acc s', w') \<and>
             checkpoint s' = Some w' \<and> max_f1 s' \<noteq> NaN \<and>
             (\<forall>j < Suc ?n. fst ((?h @ [(f, a, w)]) ! j) \<noteq> NaN \<longrightarrow>
                 fle (fst ((?h @ [(f, a, w)]) ! j)) (max_f1 s')) \<and>
             (\<forall>j. k < j \<and> j < Suc ?n \<longrightarrow> \<not> fle (max_f1 s') (fst ((?h @ [(f, a, w)]) ! j)))"
        by blast
      then show ?thesis
        using some' by (simp add: selected_def Let_def h' del: set_append) blast
    next
      case True
      with upd have u: "max_f1 s' = f" "max_f1_acc s' = a" "best_epoch s' = int ?n"
        "checkpoint s' = Some w"
        by simp_all
      from True have fn: "f \<noteq> NaN" by auto
      have ff: "fle f f" using fn by (rule fle_refl)
      have trans: "\<And>j. j < ?n \<Longrightarrow> fst (?h ! j) \<noteq> NaN \<Longrightarrow> fle (fst (?h ! j)) f"
        using le True by (blast intro: fle_trans)
      have "?n < Suc ?n \<and>
             best_epoch s' = int ?n \<and> (?h @ [(f, a, w)]) ! ?n = (max_f1 s', max_f1_acc s', w) \<and>
             checkpoint s' = Some w \<and> max_f1 s' \<noteq> NaN \<and>
             (\<forall>j < Suc ?n. fst ((?h @ [(f, a, w)]) ! j) \<noteq> NaN \<longrightarrow>
                 fle (fst ((?h @ [(f, a, w)]) ! j)) (max_f1 s')) \<and>
             (\<forall>j. ?n < j \<and> j < Suc ?n \<longrightarrow> \<not> fle (max_f1 s') (fst ((?h @ [(f, a, w)]) ! j)))"
        using u fn ff trans by (auto simp: less_Suc_eq nth_append)
      then have "\<exists>k < Suc ?n. \<exists>w'.
             best_epoch s' = int k \<and> (?h @ [(f, a, w)]) ! k = (max_f1 s', max_f1_acc s', w') \<and>
             checkpoint s' = Some w' \<and> max_f1 s' \<noteq> NaN \<and>
             (\<forall>j < Suc ?n. fst ((?h @ [(f, a, w)]) ! j) \<noteq> NaN \<longrightarrow>
                 fle (fst ((?h @ [(f, a, w)]) ! j)) (max_f1 s')) \<and>
             (\<forall>j. k < j \<and> j < Suc ?n \<longrightarrow> \<not> fle (max_f1 s') (fst ((?h @ [(f, a, w)]) ! j)))"
        by blast
      then show ?thesis
        using some' by (simp add: selected_def Let_def h' del: set_append) blast
    qed
  qed
qed

lemma run_epochs_invariant:
  assumes "\<forall>x. 0 \<le> x \<longrightarrow> 0 \<le> to_float64 P x"
  shows "run_epochs T P g tr dv [0..<n] (initial_state w0 disk) = Inr s \<Longrightarrow>
     length (history s) = n \<and>
     (\<forall>e \<in> set (history s). f1_value (fst e) \<and> dev_metrics_of T P g dv e) \<and>
     selected disk s"
proof (induction n arbitrary: s)
  case 0
  then show ?case by (auto simp: initial_state_def selected_def)
next
  case (Suc n)
  from Suc.prems obtain s1 where
    r: "run_epochs T P g tr dv [0..<n] (initial_state w0 disk) = Inr s1" and
    e: "epoch T P g (tr n) dv n s1 = Inr s"
    by (auto simp: run_epochs_snoc split: sum.splits)
  from Suc.IH [OF r] have ih: "length (history s1) = n"
    "\<forall>e \<in> set (history s1). f1_value (fst e) \<and> dev_metrics_of T P g dv e" "selected disk s1"
    by simp_all
  from epoch_step [OF e assms] obtain f a w where
    st: "dev_metrics_of T P g dv (f, a, w)" "f1_value f" "history s = history s1 @ [(f, a, w)]"
    and upd: "if fle (max_f1 s1) f
            then max_f1 s = f \<and> max_f1_acc s = a \<and> best_epoch s = int n \<and> checkpoint s = Some w
                 \<and> torch_save P w = None
            else max_f1 s = max_f1 s1 \<and> max_f1_acc s = max_f1_acc s1 \<and>
                 best_epoch s = best_epoch s1 \<and> checkpoint s = checkpoint s1"
    by blast
  have upd': "if fle (max_f1 s1) f
            then max_f1 s = f \<and> max_f1_acc s = a \<and> best_epoch s = int (length (history s1))
                 \<and> checkpoint s = Some w
            else max_f1 s = max_f1 s1 \<and> max_f1_acc s = max_f1_acc s1 \<and>
                 best_epoch s = best_epoch s1 \<and> checkpoint s = checkpoint s1"
    using upd by (simp add: ih(1) split: if_splits)
  have v1: "\<forall>e \<in> set (history s1). f1_value (fst e)" using ih(2) by blast
  have "selected disk s"
    by (rule selected_step [OF ih(3) v1 st(2,3) upd'])
  with ih st show ?case by auto
qed

text \<open>
  Claim C5, as the code has it. After an epoch the checkpoint is written, and the
  best-so-far triple replaced, exactly when \<open>max_f1 <= f1\<close> holds for the epoch's
  development F1 as computed in float64, which is never the case for an F1 that is NaN
  (and the run stops there if writing the file raises). At the end of a run, if some
  epoch had an F1 that is not NaN, the reported triple is the one of the last epoch
  among those whose computed F1 is largest, and the checkpoint is the model of that
  epoch; if every epoch had the F1 NaN (or there was no epoch) the report is (-1, 0, 0)
  and the checkpoint file is as the run found it. (Rounding to float64 keeps a number
  that is \<open>>= 0\<close> so.)
\<close>

theorem checkpoint_selection:
  assumes "training_loop T P g train_data dev_data w0 disk = Inr s"
    and "\<forall>x. 0 \<le> x \<longrightarrow> 0 \<le> to_float64 P x"
  shows "length (history s) = epoch_num g \<and>
     (\<forall>e \<in> set (history s). dev_metrics_of T P g dev_data e) \<and>
     ((\<forall>e \<in> set (history s). fst e = NaN) \<longrightarrow>
        best_epoch s = - 1 \<and> max_f1 s = Fin 0 \<and> max_f1_acc s = Fin 0 \<and> checkpoint s = disk) \<and>
     ((\<exists>e \<in> set (history s). fst e \<noteq> NaN) \<longrightarrow>
        (\<exists>k < epoch_num g. \<exists>w.
           best_epoch s = int k \<and> history s ! k = (max_f1 s, max_f1_acc s, w) \<and>
           checkpoint s = Some w \<and> max_f1 s \<noteq> NaN \<and>
           (\<forall>j < epoch_num g. fst (history s ! j) \<noteq> NaN \<longrightarrow> fle (fst (history s ! j)) (max_f1 s)) \<and>
           (\<forall>j. k < j \<and> j < epoch_num g \<longrightarrow> \<not> fle (max_f1 s) (fst (history s ! j))))) \<and>
     (\<forall>step s0 s1. epoch T P g (train_data step) dev_data step s0 = Inr s1 \<longrightarrow>
        (\<exists>f a w. dev_metrics_of T P g dev_data (f, a, w) \<and>
           history s1 = history s0 @ [(f, a, w)] \<and> model s1 = w \<and>
           (if fle (max_f1 s0) f
            then max_f1 s1 = f \<and> max_f1_acc s1 = a \<and> best_epoch s1 = int step \<and>
                 checkpoint s1 = Some w \<and> torch_save P w = None
            else max_f1 s1 = max_f1 s0 \<and> max_f1_acc s1 = max_f1_acc s0 \<and>
                 best_epoch s1 = best_epoch s0 \<and> checkpoint s1 = checkpoint s0)))"
proof -
  from assms(1) have
    "run_epochs T P g train_data dev_data [0..<epoch_num g] (initial_state w0 disk) = Inr s"
    by (simp add: training_loop_def)
  from run_epochs_invariant [OF assms(2) this] have
    len: "length (history s) = epoch_num g" and
    ent: "\<forall>e \<in> set (history s). dev_metrics_of T P g dev_data e" and
    sel: "selected disk s"
    by simp_all
  have a: "(\<forall>e \<in> set (history s). fst e = NaN) \<longrightarrow>
        best_epoch s = - 1 \<and> max_f1 s = Fin 0 \<and> max_f1_acc s = Fin 0 \<and> checkpoint s = disk"
    using sel by (simp add: selected_def Let_def)
  have b: "(\<exists>e \<in> set (history s). fst e \<noteq> NaN) \<longrightarrow>
        (\<exists>k < epoch_num g. \<exists>w.
           best_epoch s = int k \<and> history s ! k = (max_f1 s, max_f1_acc s, w) \<and>
           checkpoint s = Some w \<and> max_f1 s \<noteq> NaN \<and>
           (\<forall>j < epoch_num g. fst (history s ! j) \<noteq> NaN \<longrightarrow> fle (fst (history s ! j)) (max_f1 s)) \<and>
           (\<forall>j. k < j \<and> j < epoch_num g \<longrightarrow> \<not> fle (max_f1 s) (fst (history s ! j))))"
  proof
    assume "\<exists>e \<in> set (history s). fst e \<noteq> NaN"
    then have "\<not> (\<forall>e \<in> set (history s). fst e = NaN)" by blast
    with sel show "\<exists>k < epoch_num g. \<exists>w.
           best_epoch s = int k \<and> history s ! k = (max_f1 s, max_f1_acc s, w) \<and>
           checkpoint s = Some w \<and> max_f1 s \<noteq> NaN \<and>
           (\<forall>j < epoch_num g. fst (history s ! j) \<noteq> NaN \<longrightarrow> fle (fst (history s ! j)) (max_f1 s)) \<and>
           (\<forall>j. k < j \<and> j < epoch_num g \<longrightarrow> \<not> fle (max_f1 s) (fst (history s ! j)))"
      unfolding selected_def Let_def len by simp
  qed
  have c: "\<forall>step s0 s1. epoch T P g (train_data step) dev_data step s0 = Inr s1 \<longrightarrow>
        (\<exists>f a w. dev_metrics_of T P g dev_data (f, a, w) \<and>
           history s1 = history s0 @ [(f, a, w)] \<and> model s1 = w \<and>
           (if fle (max_f1 s0) f
            then max_f1 s1 = f \<and> max_f1_acc s1 = a \<and> best_epoch s1 = int step \<and>
                 checkpoint s1 = Some w \<and> torch_save P w = None
            else max_f1 s1 = max_f1 s0 \<and> max_f1_acc s1 = max_f1_acc s0 \<and>
                 best_epoch s1 = best_epoch s0 \<and> checkpoint s1 = checkpoint s0))"
  proof (intro allI impI)
    fix step s0 s1
    assume "epoch T P g (train_data step) dev_data step s0 = Inr s1"
    from epoch_step [OF this assms(2)] show "\<exists>f a w. dev_metrics_of T P g dev_data (f, a, w) \<and>
           history s1 = history s0 @ [(f, a, w)] \<and> model s1 = w \<and>
           (if fle (max_f1 s0) f
            then max_f1 s1 = f \<and> max_f1_acc s1 = a \<and> best_epoch s1 = int step \<and>
                 checkpoint s1 = Some w \<and> torch_save P w = None
            else max_f1 s1 = max_f1 s0 \<and> max_f1_acc s1 = max_f1_acc s0 \<and>
                 best_epoch s1 = best_epoch s0 \<and> checkpoint s1 = checkpoint s0)"
      by blast
  qed
  from len ent a b c show ?thesis by blast
qed


subsection \<open>A run in float64\<close>

lemma spacing_pos: "0 < spacing e"
  by (simp add: spacing_def)

lemma ties_to_even_nonneg: "0 \<le> m \<Longrightarrow> 0 \<le> ties_to_even m"
  by (simp add: ties_to_even_def Let_def)

lemma nearest_float64_nonneg: "0 \<le> x \<Longrightarrow> 0 \<le> nearest_float64 x"
  unfolding nearest_float64_def Let_def
  by (auto intro!: mult_nonneg_nonneg ties_to_even_nonneg divide_nonneg_pos
      simp: spacing_pos less_imp_le [OF spacing_pos])

lemma float64_machine_sign: "\<forall>x. 0 \<le> x \<longrightarrow> 0 \<le> to_float64 float64_machine x"
  by (simp add: float64_machine_def nearest_float64_nonneg)

lemma few_positive_f1:
  "f1_64 nearest_float64 \<lparr> tp = 2, tn = 2, fp = 0, fn = 2 \<rparr> = Fin (6004799503160661 / 2 ^ 53)"
  by code_simp

lemma few_positive_acc:
  "acc64 nearest_float64 \<lparr> tp = 2, tn = 2, fp = 0, fn = 2 \<rparr> = Fin (6004799503160661 / 2 ^ 53)"
  by code_simp

lemma many_positive_f1:
  "f1_64 nearest_float64 \<lparr> tp = 3, tn = 0, fp = 2, fn = 1 \<rparr> = Fin (1501199875790165 / 2 ^ 51)"
  by code_simp

lemma many_positive_acc:
  "acc64 nearest_float64 \<lparr> tp = 3, tn = 0, fp = 2, fn = 1 \<rparr> = Fin (1/2)"
  by code_simp

lemma scripted_batches_nonempty: "scripted_batches \<noteq> []"
  by (simp add: scripted_batches_def)

lemma scripted_train_pass:
  "\<exists>ls rs. train_pass scripted_torch (toy_args n) scripted_batches (0, [], []) =
     Inr (1, ls, rs)"
  "\<exists>ls rs. train_pass scripted_torch (toy_args n) scripted_batches (1, [], []) =
     Inr (2, ls, rs)"
  "\<exists>ls rs. train_pass scripted_torch (toy_args n) scripted_batches (2, [], []) =
     Inr (3, ls, rs)"
  by (simp_all add: scripted_torch_def toy_args_def scripted_batches_def train_batch_def
      loss_item_def np_c_def few_positive_def many_positive_def)

lemma few_rows:
  "dev_confusion
       [(Fin 1, Fin 1), (Fin 1, Fin 1), (Fin 0, Fin 1), (Fin 0, Fin 1), (Fin 0, Fin 0), (Fin 0, Fin 0)] =
     \<lparr> tp = 2, tn = 2, fp = 0, fn = 2 \<rparr>"
  by (simp add: dev_confusion_by_threshold by_threshold_def)

lemma many_rows:
  "dev_confusion
       [(Fin 1, Fin 1), (Fin 1, Fin 1), (Fin 1, Fin 1), (Fin 0, Fin 1), (Fin 1, Fin 0), (Fin 1, Fin 0)] =
     \<lparr> tp = 3, tn = 0, fp = 2, fn = 1 \<rparr>"
  by (simp add: dev_confusion_by_threshold by_threshold_def)

lemma few_dev_metrics:
  "f1_64 nearest_float64 (dev_confusion
       [(Fin 1, Fin 1), (Fin 1, Fin 1), (Fin 0, Fin 1), (Fin 0, Fin 1), (Fin 0, Fin 0), (Fin 0, Fin 0)]) =
     Fin (6004799503160661 / 2 ^ 53)"
  "acc64 nearest_float64 (dev_confusion
       [(Fin 1, Fin 1), (Fin 1, Fin 1), (Fin 0, Fin 1), (Fin 0, Fin 1), (Fin 0, Fin 0), (Fin 0, Fin 0)]) =
     Fin (6004799503160661 / 2 ^ 53)"
  by (simp_all only: few_rows few_positive_f1 few_positive_acc)

lemma many_dev_metrics:
  "f1_64 nearest_float64 (dev_confusion
       [(Fin 1, Fin 1), (Fin 1, Fin 1), (Fin 1, Fin 1), (Fin 0, Fin 1), (Fin 1, Fin 0), (Fin 1, Fin 0)]) =
     Fin (1501199875790165 / 2 ^ 51)"
  "acc64 nearest_float64 (dev_confusion
       [(Fin 1, Fin 1), (Fin 1, Fin 1), (Fin 1, Fin 1), (Fin 0, Fin 1), (Fin 1, Fin 0), (Fin 1, Fin 0)]) =
     Fin (1/2)"
  by (simp_all only: many_rows many_positive_f1 many_positive_acc)

lemma scripted_dev_pass:
  "\<exists>ls. dev_pass scripted_torch (toy_args n) 1 scripted_batches ([], []) =
     Inr (ls, [(Fin 1, Fin 1), (Fin 1, Fin 1), (Fin 0, Fin 1), (Fin 0, Fin 1), (Fin 0, Fin 0), (Fin 0, Fin 0)])"
  "\<exists>ls. dev_pass scripted_torch (toy_args n) 2 scripted_batches ([], []) =
     Inr (ls, [(Fin 1, Fin 1), (Fin 1, Fin 1), (Fin 1, Fin 1), (Fin 0, Fin 1), (Fin 1, Fin 0), (Fin 1, Fin 0)])"
  "\<exists>ls. dev_pass scripted_torch (toy_args n) 3 scripted_batches ([], []) =
     Inr (ls, [(Fin 1, Fin 1), (Fin 1, Fin 1), (Fin 0, Fin 1), (Fin 0, Fin 1), (Fin 0, Fin 0), (Fin 0, Fin 0)])"
  by (simp_all add: scripted_torch_def toy_args_def scripted_batches_def dev_batch_def
      loss_item_def np_c_def few_positive_def many_positive_def binarize_def)

lemma scripted_scheduler: "scheduler_step scripted_torch w = w"
  by (simp add: scripted_torch_def)

lemma float64_machine_fields:
  "to_float64 float64_machine = nearest_float64" "torch_save float64_machine w = None"
  by (simp_all add: float64_machine_def)

lemma scripted_epoch_0:
  "epoch scripted_torch float64_machine (toy_args n) scripted_batches scripted_batches 0
     (initial_state 0 None) =
     Inr \<lparr> model = 1, max_f1 = Fin (6004799503160661 / 2 ^ 53),
           max_f1_acc = Fin (6004799503160661 / 2 ^ 53), best_epoch = 0,
           checkpoint = Some 1, i_bound = True,
           history = [(Fin (6004799503160661 / 2 ^ 53), Fin (6004799503160661 / 2 ^ 53), 1)] \<rparr>"
proof -
  from scripted_train_pass(1) [of n] obtain ls rs where
    t: "train_pass scripted_torch (toy_args n) scripted_batches (0, [], []) = Inr (1, ls, rs)"
    by blast
  from scripted_dev_pass(1) [of n] obtain dls where
    d: "dev_pass scripted_torch (toy_args n) 1 scripted_batches ([], []) =
     Inr (dls, [(Fin 1, Fin 1), (Fin 1, Fin 1), (Fin 0, Fin 1), (Fin 0, Fin 1), (Fin 0, Fin 0), (Fin 0, Fin 0)])"
    by blast
  show ?thesis
    unfolding epoch_def initial_state_def
    by (simp add: Let_def t d scripted_scheduler float64_machine_fields few_dev_metrics scripted_batches_nonempty fle_def)
qed

lemma scripted_epoch_1:
  "epoch scripted_torch float64_machine (toy_args n) scripted_batches scripted_batches (Suc 0)
     \<lparr> model = 1, max_f1 = Fin (6004799503160661 / 2 ^ 53),
       max_f1_acc = Fin (6004799503160661 / 2 ^ 53), best_epoch = 0,
       checkpoint = Some 1, i_bound = True,
       history = [(Fin (6004799503160661 / 2 ^ 53), Fin (6004799503160661 / 2 ^ 53), 1)] \<rparr> =
     Inr \<lparr> model = 2, max_f1 = Fin (6004799503160661 / 2 ^ 53),
           max_f1_acc = Fin (6004799503160661 / 2 ^ 53), best_epoch = 0,
           checkpoint = Some 1, i_bound = True,
           history = [(Fin (6004799503160661 / 2 ^ 53), Fin (6004799503160661 / 2 ^ 53), 1),
                      (Fin (1501199875790165 / 2 ^ 51), Fin (1/2), 2)] \<rparr>"
proof -
  from scripted_train_pass(2) [of n] obtain ls rs where
    t: "train_pass scripted_torch (toy_args n) scripted_batches (1, [], []) = Inr (2, ls, rs)"
    by blast
  from scripted_dev_pass(2) [of n] obtain dls where
    d: "dev_pass scripted_torch (toy_args n) 2 scripted_batches ([], []) =
     Inr (dls, [(Fin 1, Fin 1), (Fin 1, Fin 1), (Fin 1, Fin 1), (Fin 0, Fin 1), (Fin 1, Fin 0), (Fin 1, Fin 0)])"
    by blast
  show ?thesis
    unfolding epoch_def
    by (simp add: Let_def t d scripted_scheduler float64_machine_fields many_dev_metrics scripted_batches_nonempty fle_def)
qed

lemma scripted_epoch_2:
  "epoch scripted_torch float64_machine (toy_args n) scripted_batches scripted_batches 2
     \<lparr> model = 2, max_f1 = Fin (6004799503160661 / 2 ^ 53),
       max_f1_acc = Fin (6004799503160661 / 2 ^ 53), best_epoch = 0,
       checkpoint = Some 1, i_bound = True,
       history = [(Fin (6004799503160661 / 2 ^ 53), Fin (6004799503160661 / 2 ^ 53), 1),
                  (Fin (1501199875790165 / 2 ^ 51), Fin (1/2), 2)] \<rparr> =
     Inr \<lparr> model = 3, max_f1 = Fin (6004799503160661 / 2 ^ 53),
           max_f1_acc = Fin (6004799503160661 / 2 ^ 53), best_epoch = 2,
           checkpoint = Some 3, i_bound = True,
           history = [(Fin (6004799503160661 / 2 ^ 53), Fin (6004799503160661 / 2 ^ 53), 1),
                      (Fin (1501199875790165 / 2 ^ 51), Fin (1/2), 2),
                      (Fin (6004799503160661 / 2 ^ 53), Fin (6004799503160661 / 2 ^ 53), 3)] \<rparr>"
proof -
  from scripted_train_pass(3) [of n] obtain ls rs where
    t: "train_pass scripted_torch (toy_args n) scripted_batches (2, [], []) = Inr (3, ls, rs)"
    by blast
  from scripted_dev_pass(3) [of n] obtain dls where
    d: "dev_pass scripted_torch (toy_args n) 3 scripted_batches ([], []) =
     Inr (dls, [(Fin 1, Fin 1), (Fin 1, Fin 1), (Fin 0, Fin 1), (Fin 0, Fin 1), (Fin 0, Fin 0), (Fin 0, Fin 0)])"
    by blast
  show ?thesis
    unfolding epoch_def
    by (simp add: Let_def t d scripted_scheduler float64_machine_fields few_dev_metrics scripted_batches_nonempty fle_def)
qed

lemma scripted_run:
  "training_loop scripted_torch float64_machine (toy_args 3) (\<lambda>step. scripted_batches)
       scripted_batches 0 None =
     Inr \<lparr> model = 3, max_f1 = Fin (6004799503160661 / 2 ^ 53),
           max_f1_acc = Fin (6004799503160661 / 2 ^ 53), best_epoch = 2,
           checkpoint = Some 3, i_bound = True,
           history = [(Fin (6004799503160661 / 2 ^ 53), Fin (6004799503160661 / 2 ^ 53), 1),
                      (Fin (1501199875790165 / 2 ^ 51), Fin (1/2), 2),
                      (Fin (6004799503160661 / 2 ^ 53), Fin (6004799503160661 / 2 ^ 53), 3)] \<rparr>"
proof -
  have u: "[0..<epoch_num (toy_args 3)] = [0, Suc 0, 2]"
    by (simp add: toy_args_def upt_rec)
  show ?thesis
    unfolding training_loop_def u
    by (simp only: run_epochs.simps scripted_epoch_0 scripted_epoch_1 scripted_epoch_2 sum.case)
qed

text \<open>
  Three epochs on a machine that rounds to the nearest float64. The development
  confusions are (tp 2, tn 2, fp 0, fn 2), then (tp 3, tn 0, fp 2, fn 1), then the first
  again: the F1 is 2/3 in the reals each time, but the float64 values are
  0.6666666666666666, 0.6666666666666665 and 0.6666666666666666. Epoch 1 is not
  selected; epoch 2 ties with epoch 0 and, being later, is the one reported and saved.
\<close>

theorem checkpoint_selection_witness:
  "training_loop scripted_torch float64_machine (toy_args 3) (\<lambda>step. scripted_batches)
       scripted_batches 0 None =
     Inr \<lparr> model = 3, max_f1 = Fin (6004799503160661 / 2 ^ 53),
           max_f1_acc = Fin (6004799503160661 / 2 ^ 53), best_epoch = 2,
           checkpoint = Some 3, i_bound = True,
           history = [(Fin (6004799503160661 / 2 ^ 53), Fin (6004799503160661 / 2 ^ 53), 1),
                      (Fin (1501199875790165 / 2 ^ 51), Fin (1/2), 2),
                      (Fin (6004799503160661 / 2 ^ 53), Fin (6004799503160661 / 2 ^ 53), 3)] \<rparr> \<and>
   (\<exists>k < 3. \<exists>w.
      (2::int) = int k \<and>
      [(Fin (6004799503160661 / 2 ^ 53), Fin (6004799503160661 / 2 ^ 53), 1),
       (Fin (1501199875790165 / 2 ^ 51), Fin (1/2), 2),
       (Fin (6004799503160661 / 2 ^ 53), Fin (6004799503160661 / 2 ^ 53), 3)] ! k =
        (Fin (6004799503160661 / 2 ^ 53), Fin (6004799503160661 / 2 ^ 53), w) \<and>
      Some (3::int) = Some w \<and>
      (\<forall>j < 3. fle (fst ([(Fin (6004799503160661 / 2 ^ 53), Fin (6004799503160661 / 2 ^ 53), 1::int),
                            (Fin (1501199875790165 / 2 ^ 51), Fin (1/2), 2),
                            (Fin (6004799503160661 / 2 ^ 53), Fin (6004799503160661 / 2 ^ 53), 3)] ! j))
                 (Fin (6004799503160661 / 2 ^ 53)))) \<and>
   \<not> fle (Fin (6004799503160661 / 2 ^ 53)) (Fin (1501199875790165 / 2 ^ 51))"
proof -
  let ?h = "[(Fin (6004799503160661 / 2 ^ 53), Fin (6004799503160661 / 2 ^ 53), 1::int),
             (Fin (1501199875790165 / 2 ^ 51), Fin (1/2), 2),
             (Fin (6004799503160661 / 2 ^ 53), Fin (6004799503160661 / 2 ^ 53), 3)]"
  note th = checkpoint_selection [OF scripted_run float64_machine_sign]
  have ex: "\<exists>e \<in> set ?h. fst e \<noteq> NaN"
    by simp
  from th ex have "\<exists>k < 3. \<exists>w.
      (2::int) = int k \<and>
      ?h ! k = (Fin (6004799503160661 / 2 ^ 53), Fin (6004799503160661 / 2 ^ 53), w) \<and>
      Some (3::int) = Some w \<and> Fin (6004799503160661 / 2 ^ 53) \<noteq> NaN \<and>
      (\<forall>j < 3. fst (?h ! j) \<noteq> NaN \<longrightarrow> fle (fst (?h ! j)) (Fin (6004799503160661 / 2 ^ 53))) \<and>
      (\<forall>j. k < j \<and> j < 3 \<longrightarrow> \<not> fle (Fin (6004799503160661 / 2 ^ 53)) (fst (?h ! j)))"
    by (simp add: toy_args_def)
  then obtain k w where kw: "k < 3" "(2::int) = int k"
    "?h ! k = (Fin (6004799503160661 / 2 ^ 53), Fin (6004799503160661 / 2 ^ 53), w)"
    "Some (3::int) = Some w"
    by blast
  have le: "\<forall>j < 3. fle (fst (?h ! j)) (Fin (6004799503160661 / 2 ^ 53))"
    by (simp add: less_Suc_eq numeral_3_eq_3 fle_def)
  have lt: "\<not> fle (Fin (6004799503160661 / 2 ^ 53)) (Fin (1501199875790165 / 2 ^ 51))"
    by (simp add: fle_def)
  from kw le lt scripted_run show ?thesis by blast
qed

lemma toy_batches_nonempty: "toy_batches \<noteq> []"
  by (simp add: toy_batches_def)

lemma negative_dev_pass:
  "dev_pass toy_torch (toy_args n) w negative_batches ([], []) =
     Inr ([Fin 0], [(Fin 0, Fin 1), (Fin 0, Fin 0)])"
  by (simp add: toy_torch_def toy_args_def negative_batches_def dev_batch_def loss_item_def
      np_c_def binarize_def)

lemma negative_dev_f1:
  "f1_64 nearest_float64 (dev_confusion [(Fin 0, Fin 1), (Fin 0, Fin 0)]) = NaN"
  by code_simp

lemma negative_dev_acc:
  "acc64 nearest_float64 (dev_confusion [(Fin 0, Fin 1), (Fin 0, Fin 0)]) = Fin (1/2)"
  by code_simp

text \<open>
  A run of one epoch in which no development prediction reaches 0.5: the F1 of the epoch
  is NaN, nothing is written, and the report names epoch -1 with F1 0 and accuracy 0,
  the triple of no epoch, while the accuracy of the only epoch is 1/2.
\<close>

theorem no_positive_prediction_selects_no_epoch:
  "training_loop toy_torch float64_machine (toy_args 1) (\<lambda>step. toy_batches) negative_batches
       0 None =
     Inr \<lparr> model = 1, max_f1 = Fin 0, max_f1_acc = Fin 0, best_epoch = - 1,
           checkpoint = None, i_bound = True, history = [(NaN, Fin (1/2), 1)] \<rparr>"
proof -
  have u: "[0..<epoch_num (toy_args 1)] = [0]"
    by (simp add: toy_args_def)
  have sch: "scheduler_step toy_torch 1 = 1" by (simp add: toy_torch_def)
  have e: "\<And>n. epoch toy_torch float64_machine (toy_args n) toy_batches negative_batches 0
       (initial_state 0 None) =
     Inr \<lparr> model = 1, max_f1 = Fin 0, max_f1_acc = Fin 0, best_epoch = - 1,
           checkpoint = None, i_bound = True, history = [(NaN, Fin (1/2), 1)] \<rparr>"
    unfolding epoch_def initial_state_def
    by (simp add: Let_def toy_train_pass negative_dev_pass sch negative_dev_f1 negative_dev_acc
        toy_batches_nonempty float64_machine_fields)
  show ?thesis
    unfolding training_loop_def u
    by (simp add: e)
qed

text \<open>
  When \<open>torch.save\<close> raises (the directory \<open>models/\<close> is missing, say), the run stops at
  the first epoch whose F1 passes the comparison.
\<close>

lemma failed_save_stops_the_run:
  "training_loop scripted_torch \<lparr> to_float64 = nearest_float64,
         torch_save = (\<lambda>w. Some FileNotFoundError) \<rparr>
       (toy_args 3) (\<lambda>step. scripted_batches) scripted_batches 0 None = Inl FileNotFoundError"
proof -
  have u: "[0..<epoch_num (toy_args 3)] = [0, Suc 0, 2]"
    by (simp add: toy_args_def upt_rec)
  from scripted_train_pass(1) [of 3] obtain ls rs where
    t: "train_pass scripted_torch (toy_args 3) scripted_batches (0, [], []) = Inr (1, ls, rs)"
    by blast
  from scripted_dev_pass(1) [of 3] obtain dls where
    d: "dev_pass scripted_torch (toy_args 3) 1 scripted_batches ([], []) =
     Inr (dls, [(Fin 1, Fin 1), (Fin 1, Fin 1), (Fin 0, Fin 1), (Fin 0, Fin 1), (Fin 0, Fin 0), (Fin 0, Fin 0)])"
    by blast
  have e: "epoch scripted_torch \<lparr> to_float64 = nearest_float64,
         torch_save = (\<lambda>w. Some FileNotFoundError) \<rparr>
       (toy_args 3) scripted_batches scripted_batches 0 (initial_state 0 None) =
       Inl FileNotFoundError"
    unfolding epoch_def initial_state_def
    by (simp add: Let_def t d scripted_scheduler few_dev_metrics scripted_batches_nonempty
        fle_def)
  show ?thesis
    unfolding training_loop_def u
    by (simp add: e)
qed

section \<open>Normalization statistics\<close>

lemma channel_set_channel_other:
  "i \<noteq> j \<Longrightarrow> channel (set_channel a j m s) i = channel a i"
  by (simp add: channel_def set_channel_def)

lemma set_channel_shape [simp]:
  "shape0 (set_channel a j m s) = shape0 a"
  "shape1 (set_channel a j m s) = shape1 a"
  "shape2 (set_channel a j m s) = shape2 a"
  by (simp_all add: set_channel_def)

lemma set_channel_elem:
  "elem (set_channel a j m s) n t c =
     (if c = j then standardize m s (elem a n t c) else elem a n t c)"
  by (simp add: set_channel_def)

text \<open>
  The statistics of a channel are taken before the channel is overwritten, and
  overwriting one channel leaves the others as they were.
\<close>

lemma fit_channels_spec:
  assumes "fit_channels is (means, stds, a) = (means', stds', a')"
    and "distinct is" and "\<forall>i \<in> set is. i < length means \<and> i < length stds"
  shows "length means' = length means \<and> length stds' = length stds \<and>
         shape0 a' = shape0 a \<and> shape1 a' = shape1 a \<and> shape2 a' = shape2 a \<and>
         (\<forall>i. i \<in> set is \<longrightarrow>
            means' ! i = nanmean (channel a i) \<and> stds' ! i = nanstd (channel a i)) \<and>
         (\<forall>i. i \<notin> set is \<longrightarrow> means' ! i = means ! i \<and> stds' ! i = stds ! i) \<and>
         (\<forall>n t c. elem a' n t c =
            (if c \<in> set is
             then standardize (nanmean (channel a c)) (nanstd (channel a c)) (elem a n t c)
             else elem a n t c))"
  using assms
proof (induction "is" arbitrary: means stds a)
  case Nil
  then show ?case by simp
next
  case (Cons j js)
  let ?m = "nanmean (channel a j)"
  let ?s = "nanstd (channel a j)"
  let ?a = "set_channel a j ?m ?s"
  from Cons.prems(3) have jl: "j < length means" "j < length stds" by simp_all
  from Cons.prems(1) jl
  have rec: "fit_channels js (means[j := ?m], stds[j := ?s], ?a) = (means', stds', a')"
    by (simp add: Let_def)
  from Cons.prems(2) have d: "distinct js" and nj: "j \<notin> set js" by simp_all
  from Cons.prems(3)
  have b: "\<forall>i \<in> set js. i < length (means[j := ?m]) \<and> i < length (stds[j := ?s])"
    by simp
  note ih = Cons.IH [OF rec d b]
  have ch: "\<And>i. i \<in> set js \<Longrightarrow> channel ?a i = channel a i"
    using nj by (intro channel_set_channel_other) auto
  show ?case
    using ih jl nj ch by (auto simp: set_channel_elem)
qed

lemma apply_channels_spec:
  assumes "train_mean g = Some ms" "train_std g = Some ss"
    and "distinct is" and "\<forall>i \<in> set is. i < length ms \<and> i < length ss"
  shows "\<exists>a'. apply_channels g is a = Inr a' \<and>
         shape0 a' = shape0 a \<and> shape1 a' = shape1 a \<and> shape2 a' = shape2 a \<and>
         (\<forall>n t c. elem a' n t c =
            (if c \<in> set is then standardize (ms ! c) (ss ! c) (elem a n t c) else elem a n t c))"
  using assms(3,4)
proof (induction "is" arbitrary: a)
  case Nil
  then show ?case by simp
next
  case (Cons j js)
  then have jl: "j < length ms" "j < length ss" and nj: "j \<notin> set js" and d: "distinct js" and
    b: "\<forall>i \<in> set js. i < length ms \<and> i < length ss" by simp_all
  from Cons.IH [OF d b, of "set_channel a j (ms ! j) (ss ! j)"] obtain a' where
    a': "apply_channels g js (set_channel a j (ms ! j) (ss ! j)) = Inr a'"
      "shape0 a' = shape0 a" "shape1 a' = shape1 a" "shape2 a' = shape2 a"
      "\<And>n t c. elem a' n t c =
         (if c \<in> set js
          then standardize (ms ! c) (ss ! c) (elem (set_channel a j (ms ! j) (ss ! j)) n t c)
          else elem (set_channel a j (ms ! j) (ss ! j)) n t c)"
    by auto
  have "apply_channels g (j # js) a = Inr a'"
    using a'(1) jl assms(1,2) by (simp add: read_stat_def)
  moreover have "\<forall>n t c. elem a' n t c =
     (if c \<in> set (j # js) then standardize (ms ! c) (ss ! c) (elem a n t c) else elem a n t c)"
    using a'(5) nj by (auto simp: set_channel_elem)
  ultimately show ?case using a'(2-4) by blast
qed


lemma init_training:
  "\<exists>a. SigDataset_init g data lab True =
       Inr (g\<lparr> train_mean := Some (map (\<lambda>c. nanmean (channel data c)) [0..<shape2 data]),
               train_std := Some (map (\<lambda>c. nanstd (channel data c)) [0..<shape2 data]) \<rparr>,
            \<lparr> input = a, label = lab, training = True \<rparr>) \<and>
     shape0 a = shape0 data \<and> shape1 a = shape1 data \<and> shape2 a = shape2 data \<and>
     (\<forall>n t c. c < shape2 data \<longrightarrow>
        elem a n t c =
          standardize (nanmean (channel data c)) (nanstd (channel data c)) (elem data n t c))"
proof -
  let ?c = "shape2 data"
  obtain means stds a where
    f: "fit_channels [0..<?c] (replicate ?c (Fin 0), replicate ?c (Fin 0), data) = (means, stds, a)"
    by (cases "fit_channels [0..<?c] (replicate ?c (Fin 0), replicate ?c (Fin 0), data)") auto
  have sp: "length means = ?c \<and> length stds = ?c \<and>
         shape0 a = shape0 data \<and> shape1 a = shape1 data \<and> shape2 a = shape2 data \<and>
         (\<forall>i. i \<in> set [0..<?c] \<longrightarrow>
            means ! i = nanmean (channel data i) \<and> stds ! i = nanstd (channel data i)) \<and>
         (\<forall>i. i \<notin> set [0..<?c] \<longrightarrow>
            means ! i = replicate ?c (Fin 0) ! i \<and> stds ! i = replicate ?c (Fin 0) ! i) \<and>
         (\<forall>n t c. elem a n t c =
            (if c \<in> set [0..<?c]
             then standardize (nanmean (channel data c)) (nanstd (channel data c)) (elem data n t c)
             else elem data n t c))"
    using fit_channels_spec [OF f] by simp
  have m: "means = map (\<lambda>c. nanmean (channel data c)) [0..<?c]"
    using sp by (intro nth_equalityI) simp_all
  have s: "stds = map (\<lambda>c. nanstd (channel data c)) [0..<?c]"
    using sp by (intro nth_equalityI) simp_all
  have i: "SigDataset_init g data lab True =
       Inr (g\<lparr> train_mean := Some means, train_std := Some stds \<rparr>,
            \<lparr> input = a, label = lab, training = True \<rparr>)"
    by (simp add: SigDataset_init_def Let_def f)
  show ?thesis
    using i sp unfolding m s by auto
qed

lemma init_not_training:
  assumes "train_mean g = Some ms" "train_std g = Some ss"
    and "shape2 data \<le> length ms" "shape2 data \<le> length ss"
  shows "\<exists>a. SigDataset_init g data lab False =
               Inr (g, \<lparr> input = a, label = lab, training = False \<rparr>) \<and>
     shape0 a = shape0 data \<and> shape1 a = shape1 data \<and> shape2 a = shape2 data \<and>
     (\<forall>n t c. c < shape2 data \<longrightarrow> elem a n t c = standardize (ms ! c) (ss ! c) (elem data n t c))"
proof -
  have b: "\<forall>i \<in> set [0..<shape2 data]. i < length ms \<and> i < length ss"
    using assms(3,4) by auto
  from apply_channels_spec [OF assms(1,2) _ b, of data] obtain a where
    a: "apply_channels g [0..<shape2 data] data = Inr a"
      "shape0 a = shape0 data" "shape1 a = shape1 data" "shape2 a = shape2 data"
      "\<And>n t c. elem a n t c =
         (if c \<in> set [0..<shape2 data] then standardize (ms ! c) (ss ! c) (elem data n t c)
          else elem data n t c)"
    by auto
  have "SigDataset_init g data lab False = Inr (g, \<lparr> input = a, label = lab, training = False \<rparr>)"
    by (simp add: SigDataset_init_def Let_def a(1))
  then show ?thesis
    using a(2-5) by auto
qed

lemma init_not_training_args:
  "SigDataset_init g data lab False = Inr (g', ds) \<Longrightarrow> g' = g"
  by (auto simp: SigDataset_init_def Let_def split: sum.splits)





subsection \<open>The statistics in closed form\<close>

lemma foldl_fadd_numbers:
  "\<forall>x \<in> set xs. \<exists>v. x = Fin v \<Longrightarrow>
     foldl fadd (Fin a) xs = Fin (a + sum_list (map number_of xs))"
proof (induction xs arbitrary: a)
  case Nil
  then show ?case by simp
next
  case (Cons x xs)
  from Cons.prems obtain v where x: "x = Fin v" by auto
  from Cons.prems have "\<forall>y \<in> set xs. \<exists>v. y = Fin v" by simp
  from Cons.IH [OF this, of "a + v"] show ?case by (simp add: x add.assoc)
qed

lemma np_mean_numbers:
  assumes "\<forall>x \<in> set xs. \<exists>v. x = Fin v" and "xs \<noteq> []"
  shows "np_mean xs = Fin (sum_list (map number_of xs) / real (length xs))"
  using assms by (simp add: np_mean_def fsum_def foldl_fadd_numbers)

lemma np_mean_empty: "np_mean [] = NaN"
  by (simp add: np_mean_def fsum_def)

lemma present_numbers:
  assumes "\<forall>x \<in> set xs. x \<noteq> PInf \<and> x \<noteq> NInf"
  shows "\<forall>x \<in> set (filter (\<lambda>x. \<not> isnan x) xs). \<exists>v. x = Fin v"
proof
  fix x assume "x \<in> set (filter (\<lambda>x. \<not> isnan x) xs)"
  with assms have "x \<noteq> PInf" "x \<noteq> NInf" "x \<noteq> NaN" by (auto simp: isnan_def)
  then show "\<exists>v. x = Fin v" by (cases x) simp_all
qed

lemma sum_present:
  "sum_list (map f (filter (\<lambda>x. \<not> isnan x) xs)) =
     sum_list (map (\<lambda>x. if x = NaN then 0 else f x) xs)"
  by (induction xs) (simp_all add: isnan_def)

lemma length_present:
  "length (filter (\<lambda>x. \<not> isnan x) xs) =
     sum_list (map (\<lambda>x. if x = NaN then 0 else 1) xs)"
  by (induction xs) (simp_all add: isnan_def)

lemma sum_list_upt_lessThan: "sum_list (map f [0..<n]) = (\<Sum>i<n. f i)"
  by (induction n) simp_all

lemma sum_list_map_concat:
  "sum_list (map f (concat xss)) = sum_list (map (\<lambda>xs. sum_list (map f xs)) xss)"
  by (induction xss) simp_all

lemma sum_list_channel:
  "sum_list (map f (channel a c)) = (\<Sum>n<shape0 a. \<Sum>t<shape1 a. f (elem a n t c))"
  by (simp add: channel_def sum_list_map_concat o_def sum_list_upt_lessThan)

lemma channel_members:
  "x \<in> set (channel a c) \<Longrightarrow> \<exists>n t. n < shape0 a \<and> t < shape1 a \<and> x = elem a n t c"
  unfolding channel_def by fastforce

lemma channel_no_infinity:
  assumes "no_infinity a" "c < shape2 a"
  shows "\<forall>x \<in> set (channel a c). x \<noteq> PInf \<and> x \<noteq> NInf"
proof
  fix x assume "x \<in> set (channel a c)"
  from channel_members [OF this] obtain n t where "n < shape0 a" "t < shape1 a" "x = elem a n t c"
    by blast
  with assms show "x \<noteq> PInf \<and> x \<noteq> NInf" by (simp add: no_infinity_def)
qed

lemma length_present_channel:
  "length (filter (\<lambda>x. \<not> isnan x) (channel a c)) = n_present a c"
  by (simp add: length_present sum_list_channel n_present_def)

lemma number_of_present: "(if x = NaN then 0 else number_of x) = number_of x"
  by (cases x) simp_all

lemma nanmean_closed:
  assumes "no_infinity a" "c < shape2 a"
  shows "nanmean (channel a c) = mean_stat a c"
proof (cases "n_present a c = 0")
  case True
  then have "filter (\<lambda>x. \<not> isnan x) (channel a c) = []"
    using length_present_channel [of a c] by simp
  then show ?thesis using True by (simp add: nanmean_def np_mean_empty mean_stat_def)
next
  case False
  let ?ys = "filter (\<lambda>x. \<not> isnan x) (channel a c)"
  have ne: "?ys \<noteq> []" using False length_present_channel [of a c] by auto
  have fin: "\<forall>x \<in> set ?ys. \<exists>v. x = Fin v"
    by (rule present_numbers [OF channel_no_infinity [OF assms]])
  have "sum_list (map number_of ?ys) = (\<Sum>n<shape0 a. \<Sum>t<shape1 a. number_of (elem a n t c))"
    by (simp only: sum_present number_of_present sum_list_channel)
  then show ?thesis
    using False np_mean_numbers [OF fin ne]
    by (simp add: nanmean_def mean_stat_def mean_of_present_def length_present_channel)
qed

lemma nanstd_closed:
  assumes "no_infinity a" "c < shape2 a"
  shows "nanstd (channel a c) = std_stat a c"
proof (cases "n_present a c = 0")
  case True
  then have "filter (\<lambda>x. \<not> isnan x) (channel a c) = []"
    using length_present_channel [of a c] by simp
  then show ?thesis using True by (simp add: nanstd_def np_mean_empty std_stat_def Let_def)
next
  case False
  let ?ys = "filter (\<lambda>x. \<not> isnan x) (channel a c)"
  let ?mu = "mean_of_present a c"
  let ?sq = "map (\<lambda>y. fmul (fsub y (Fin ?mu)) (fsub y (Fin ?mu))) ?ys"
  have ne: "?ys \<noteq> []" using False length_present_channel [of a c] by auto
  have fin: "\<forall>x \<in> set ?ys. \<exists>v. x = Fin v"
    by (rule present_numbers [OF channel_no_infinity [OF assms]])
  have m: "np_mean ?ys = Fin ?mu"
    using nanmean_closed [OF assms] False by (simp add: nanmean_def mean_stat_def)
  have sq: "?sq = map (\<lambda>y. Fin ((number_of y - ?mu)\<^sup>2)) ?ys"
  proof (rule map_cong [OF refl])
    fix y assume "y \<in> set ?ys"
    with fin obtain v where "y = Fin v" by blast
    then show "fmul (fsub y (Fin ?mu)) (fsub y (Fin ?mu)) = Fin ((number_of y - ?mu)\<^sup>2)"
      by (simp add: fsub_def power2_eq_square)
  qed
  have fin2: "\<forall>x \<in> set ?sq. \<exists>v. x = Fin v" unfolding sq by auto
  have ne2: "?sq \<noteq> []" using ne by simp
  have "sum_list (map number_of ?sq) = sum_list (map (\<lambda>y. (number_of y - ?mu)\<^sup>2) ?ys)"
    unfolding sq by (simp add: o_def)
  also have "\<dots> = (\<Sum>n<shape0 a. \<Sum>t<shape1 a.
      if elem a n t c = NaN then 0 else (number_of (elem a n t c) - ?mu)\<^sup>2)"
    by (simp only: sum_present sum_list_channel)
  finally have s: "sum_list (map number_of ?sq) = (\<Sum>n<shape0 a. \<Sum>t<shape1 a.
      if elem a n t c = NaN then 0 else (number_of (elem a n t c) - ?mu)\<^sup>2)" .
  have nonneg: "0 \<le> (\<Sum>n<shape0 a. \<Sum>t<shape1 a.
      if elem a n t c = NaN then 0 else (number_of (elem a n t c) - ?mu)\<^sup>2) / real (n_present a c)"
    by (intro divide_nonneg_nonneg sum_nonneg) simp_all
  have "np_mean ?sq = Fin ((\<Sum>n<shape0 a. \<Sum>t<shape1 a.
      if elem a n t c = NaN then 0 else (number_of (elem a n t c) - ?mu)\<^sup>2) / real (n_present a c))"
    using np_mean_numbers [OF fin2 ne2] s by (simp add: length_present_channel)
  then have "nanstd (channel a c) = Fin (std_of_present a c)"
    using nonneg by (simp add: nanstd_def Let_def m std_of_present_def not_less [symmetric])
  then show ?thesis using False by (simp add: std_stat_def)
qed

lemma std_of_present_nonneg: "0 \<le> std_of_present a c"
  unfolding std_of_present_def
  by (intro real_sqrt_ge_zero divide_nonneg_nonneg sum_nonneg) simp_all

text \<open>What \<open>(x - mean) / (std + 1e-5)\<close> gives, by the kind of the value and of the statistics.\<close>

lemma standardize_number:
  "0 \<le> sd \<Longrightarrow> standardize (Fin mu) (Fin sd) (Fin v) = Fin ((v - mu) / (sd + 1 / 100000))"
  by (simp add: standardize_def fsub_def)

lemma standardize_missing: "standardize m s NaN = NaN"
  by (simp add: standardize_def fsub_def)

lemma standardize_no_statistics: "standardize NaN s x = NaN"
  by (cases x) (simp_all add: standardize_def fsub_def)

lemma standardize_closed:
  assumes "no_infinity a" "c < shape2 a"
  shows "0 < n_present a c \<Longrightarrow>
     standardize (nanmean (channel a c)) (nanstd (channel a c)) (Fin v) =
       Fin ((v - mean_of_present a c) / (std_of_present a c + 1 / 100000))"
    and "x = NaN \<or> n_present a c = 0 \<Longrightarrow>
     standardize (nanmean (channel a c)) (nanstd (channel a c)) x = NaN"
proof -
  show "standardize (nanmean (channel a c)) (nanstd (channel a c)) (Fin v) =
       Fin ((v - mean_of_present a c) / (std_of_present a c + 1 / 100000))"
    if "0 < n_present a c"
    using that
    by (simp add: nanmean_closed [OF assms] nanstd_closed [OF assms] mean_stat_def std_stat_def
        standardize_number [OF std_of_present_nonneg])
  show "standardize (nanmean (channel a c)) (nanstd (channel a c)) x = NaN"
    if "x = NaN \<or> n_present a c = 0"
    using that
    by (auto simp: nanmean_closed [OF assms] mean_stat_def standardize_missing
        standardize_no_statistics)
qed

subsection \<open>The three datasets\<close>

lemma build_datasets_standardized:
  assumes "shape2 dev_x \<le> shape2 train_x" and "shape2 test_x \<le> shape2 train_x"
  shows "\<exists>g' train_data dev_data test_data.
     build_datasets g (train_x, train_y) (dev_x, dev_y) (test_x, test_y) =
       Inr (g', train_data, dev_data, test_data) \<and>
     train_mean g' = Some (map (\<lambda>c. nanmean (channel train_x c)) [0..<shape2 train_x]) \<and>
     train_std g' = Some (map (\<lambda>c. nanstd (channel train_x c)) [0..<shape2 train_x]) \<and>
     (\<forall>n t c. c < shape2 train_x \<longrightarrow>
        elem (input train_data) n t c =
          standardize (nanmean (channel train_x c)) (nanstd (channel train_x c)) (elem train_x n t c)) \<and>
     (\<forall>n t c. c < shape2 dev_x \<longrightarrow>
        elem (input dev_data) n t c =
          standardize (nanmean (channel train_x c)) (nanstd (channel train_x c)) (elem dev_x n t c)) \<and>
     (\<forall>n t c. c < shape2 test_x \<longrightarrow>
        elem (input test_data) n t c =
          standardize (nanmean (channel train_x c)) (nanstd (channel train_x c)) (elem test_x n t c))"
proof -
  let ?ms = "map (\<lambda>c. nanmean (channel train_x c)) [0..<shape2 train_x]"
  let ?ss = "map (\<lambda>c. nanstd (channel train_x c)) [0..<shape2 train_x]"
  let ?g1 = "g\<lparr> train_mean := Some ?ms, train_std := Some ?ss \<rparr>"
  let ?norm = "\<lambda>c. standardize (nanmean (channel train_x c)) (nanstd (channel train_x c))"
  from init_training [of g train_x train_y] obtain a1 where
    i1: "SigDataset_init g train_x train_y True =
           Inr (?g1, \<lparr> input = a1, label = train_y, training = True \<rparr>)"
    and e1: "\<And>n t c. c < shape2 train_x \<Longrightarrow> elem a1 n t c = ?norm c (elem train_x n t c)"
    by blast
  have st: "train_mean ?g1 = Some ?ms" "train_std ?g1 = Some ?ss" by simp_all
  have ld: "shape2 dev_x \<le> length ?ms" "shape2 dev_x \<le> length ?ss" using assms(1) by simp_all
  have lt: "shape2 test_x \<le> length ?ms" "shape2 test_x \<le> length ?ss" using assms(2) by simp_all
  from init_not_training [OF st ld, of dev_y] obtain a2 where
    i2: "SigDataset_init ?g1 dev_x dev_y False =
           Inr (?g1, \<lparr> input = a2, label = dev_y, training = False \<rparr>)"
    and e2': "\<And>n t c. c < shape2 dev_x \<Longrightarrow> elem a2 n t c = standardize (?ms ! c) (?ss ! c) (elem dev_x n t c)"
    by blast
  from init_not_training [OF st lt, of test_y] obtain a3 where
    i3: "SigDataset_init ?g1 test_x test_y False =
           Inr (?g1, \<lparr> input = a3, label = test_y, training = False \<rparr>)"
    and e3': "\<And>n t c. c < shape2 test_x \<Longrightarrow> elem a3 n t c = standardize (?ms ! c) (?ss ! c) (elem test_x n t c)"
    by blast
  have e2: "\<And>n t c. c < shape2 dev_x \<Longrightarrow> elem a2 n t c = ?norm c (elem dev_x n t c)"
    using e2' assms(1) by simp
  have e3: "\<And>n t c. c < shape2 test_x \<Longrightarrow> elem a3 n t c = ?norm c (elem test_x n t c)"
    using e3' assms(2) by simp
  have b: "build_datasets g (train_x, train_y) (dev_x, dev_y) (test_x, test_y) =
      Inr (?g1, \<lparr> input = a1, label = train_y, training = True \<rparr>,
           \<lparr> input = a2, label = dev_y, training = False \<rparr>,
           \<lparr> input = a3, label = test_y, training = False \<rparr>)"
    by (simp add: build_datasets_def i1 i2 i3)
  show ?thesis
    apply (rule exI [of _ ?g1])
    apply (rule exI [of _ "\<lparr> input = a1, label = train_y, training = True \<rparr>"])
    apply (rule exI [of _ "\<lparr> input = a2, label = dev_y, training = False \<rparr>"])
    apply (rule exI [of _ "\<lparr> input = a3, label = test_y, training = False \<rparr>"])
    using b e1 e2 e3 by simp
qed

text \<open>
  Claim C4. The statistics are computed by the construction of the training dataset: for
  every channel, the mean and the standard deviation of the entries of that channel of
  the raw training array that are not NaN, over all examples and timesteps (NaN for a
  channel without such an entry). In the training, development and test arrays an entry
  \<open>x\<close> of channel \<open>c\<close> that is a number becomes \<open>(x - mean[c]) / (std[c] + 1e-5)\<close> with
  those statistics of the training array, and an entry that is NaN, or whose channel has
  no statistics, becomes NaN. A dataset constructed with \<open>training=False\<close> leaves the
  stored statistics as they are. (The training array holds numbers and NaN; the
  held-out arrays have no more channels than the training array.)
\<close>

theorem normalization_uses_training_statistics:
  assumes "shape2 dev_x \<le> shape2 train_x" and "shape2 test_x \<le> shape2 train_x"
    and "no_infinity train_x"
  shows "\<exists>g' train_data dev_data test_data.
     build_datasets g (train_x, train_y) (dev_x, dev_y) (test_x, test_y) =
       Inr (g', train_data, dev_data, test_data) \<and>
     train_mean g' = Some (map (mean_stat train_x) [0..<shape2 train_x]) \<and>
     train_std g' = Some (map (std_stat train_x) [0..<shape2 train_x]) \<and>
     (\<forall>n t c v. c < shape2 train_x \<and> 0 < n_present train_x c \<and> elem train_x n t c = Fin v \<longrightarrow>
        elem (input train_data) n t c = Fin (standard_score train_x c v)) \<and>
     (\<forall>n t c. c < shape2 train_x \<and> (elem train_x n t c = NaN \<or> n_present train_x c = 0) \<longrightarrow>
        elem (input train_data) n t c = NaN) \<and>
     (\<forall>n t c v. c < shape2 dev_x \<and> 0 < n_present train_x c \<and> elem dev_x n t c = Fin v \<longrightarrow>
        elem (input dev_data) n t c = Fin (standard_score train_x c v)) \<and>
     (\<forall>n t c. c < shape2 dev_x \<and> (elem dev_x n t c = NaN \<or> n_present train_x c = 0) \<longrightarrow>
        elem (input dev_data) n t c = NaN) \<and>
     (\<forall>n t c v. c < shape2 test_x \<and> 0 < n_present train_x c \<and> elem test_x n t c = Fin v \<longrightarrow>
        elem (input test_data) n t c = Fin (standard_score train_x c v)) \<and>
     (\<forall>n t c. c < shape2 test_x \<and> (elem test_x n t c = NaN \<or> n_present train_x c = 0) \<longrightarrow>
        elem (input test_data) n t c = NaN) \<and>
     (\<forall>g0 data lab g1 ds. SigDataset_init g0 data lab False = Inr (g1, ds) \<longrightarrow> g1 = g0)"
proof -
  let ?norm = "\<lambda>c. standardize (nanmean (channel train_x c)) (nanstd (channel train_x c))"
  from build_datasets_standardized [OF assms(1,2), of g train_y dev_y test_y]
  obtain g' train_data dev_data test_data where
    b: "build_datasets g (train_x, train_y) (dev_x, dev_y) (test_x, test_y) =
          Inr (g', train_data, dev_data, test_data)"
    and m: "train_mean g' = Some (map (\<lambda>c. nanmean (channel train_x c)) [0..<shape2 train_x])"
    and s: "train_std g' = Some (map (\<lambda>c. nanstd (channel train_x c)) [0..<shape2 train_x])"
    and e1: "\<And>n t c. c < shape2 train_x \<Longrightarrow>
        elem (input train_data) n t c = ?norm c (elem train_x n t c)"
    and e2: "\<And>n t c. c < shape2 dev_x \<Longrightarrow>
        elem (input dev_data) n t c = ?norm c (elem dev_x n t c)"
    and e3: "\<And>n t c. c < shape2 test_x \<Longrightarrow>
        elem (input test_data) n t c = ?norm c (elem test_x n t c)"
    by blast
  have num: "\<And>c v. c < shape2 train_x \<Longrightarrow> 0 < n_present train_x c \<Longrightarrow>
      ?norm c (Fin v) = Fin (standard_score train_x c v)"
    using standardize_closed(1) [OF assms(3)] by (simp add: standard_score_def)
  have nan: "\<And>c x. c < shape2 train_x \<Longrightarrow> x = NaN \<or> n_present train_x c = 0 \<Longrightarrow>
      ?norm c x = NaN"
    using standardize_closed(2) [OF assms(3)] by blast
  have m': "train_mean g' = Some (map (mean_stat train_x) [0..<shape2 train_x])"
    unfolding m using nanmean_closed [OF assms(3)] by simp
  have s': "train_std g' = Some (map (std_stat train_x) [0..<shape2 train_x])"
    unfolding s using nanstd_closed [OF assms(3)] by simp
  have t1: "\<forall>n t c v. c < shape2 train_x \<and> 0 < n_present train_x c \<and> elem train_x n t c = Fin v \<longrightarrow>
        elem (input train_data) n t c = Fin (standard_score train_x c v)"
    using e1 num by simp
  have t2: "\<forall>n t c. c < shape2 train_x \<and> (elem train_x n t c = NaN \<or> n_present train_x c = 0) \<longrightarrow>
        elem (input train_data) n t c = NaN"
    using e1 nan by simp
  have d1: "\<forall>n t c v. c < shape2 dev_x \<and> 0 < n_present train_x c \<and> elem dev_x n t c = Fin v \<longrightarrow>
        elem (input dev_data) n t c = Fin (standard_score train_x c v)"
    using e2 num assms(1) by simp
  have d2: "\<forall>n t c. c < shape2 dev_x \<and> (elem dev_x n t c = NaN \<or> n_present train_x c = 0) \<longrightarrow>
        elem (input dev_data) n t c = NaN"
    using e2 nan assms(1) by simp
  have u1: "\<forall>n t c v. c < shape2 test_x \<and> 0 < n_present train_x c \<and> elem test_x n t c = Fin v \<longrightarrow>
        elem (input test_data) n t c = Fin (standard_score train_x c v)"
    using e3 num assms(2) by simp
  have u2: "\<forall>n t c. c < shape2 test_x \<and> (elem test_x n t c = NaN \<or> n_present train_x c = 0) \<longrightarrow>
        elem (input test_data) n t c = NaN"
    using e3 nan assms(2) by simp
  have keep: "\<forall>g0 data lab g1 ds. SigDataset_init g0 data lab False = Inr (g1, ds) \<longrightarrow> g1 = g0"
    using init_not_training_args by blast
  from b m' s' t1 t2 d1 d2 u1 u2 keep show ?thesis by blast
qed


lemma gappy_shapes:
  "shape0 gappy_train_array = Suc (Suc 0)" "shape1 gappy_train_array = Suc (Suc 0)"
  "shape2 gappy_train_array = 2" "shape2 gappy_heldout_array = 2"
  by (simp_all add: gappy_train_array_def gappy_heldout_array_def)

lemma gappy_no_infinity: "no_infinity gappy_train_array"
  by (simp add: no_infinity_def gappy_train_array_def)

lemma gappy_n_present: "n_present gappy_train_array 0 = 3" "n_present gappy_train_array (Suc 0) = 4"
  unfolding n_present_def gappy_shapes
  by (simp_all add: gappy_train_array_def)

lemma gappy_mean: "mean_of_present gappy_train_array 0 = 3"
  "mean_of_present gappy_train_array (Suc 0) = 4"
  unfolding mean_of_present_def gappy_n_present
  unfolding gappy_shapes
  by (simp_all add: gappy_train_array_def)

lemma gappy_std: "std_of_present gappy_train_array 0 = sqrt (8/3)"
  "std_of_present gappy_train_array (Suc 0) = 2"
  unfolding std_of_present_def gappy_n_present gappy_mean
  unfolding gappy_shapes
  by (simp_all add: gappy_train_array_def)

lemma gappy_score:
  "standard_score gappy_train_array 0 v = (v - 3) / (sqrt (8/3) + 1 / 100000)"
  "standard_score gappy_train_array (Suc 0) v = (v - 4) * 100000 / 200001"
  by (simp_all add: standard_score_def gappy_mean gappy_std)

text \<open>
  Two training windows of two timesteps and two channels, one entry missing. Channel 0
  holds 1, NaN, 3, 5: three entries, mean 3, standard deviation \<open>sqrt (8/3)\<close>. Channel 1
  holds 2, 2, 6, 6: mean 4, standard deviation 2. The held-out window is normalized with
  these: 10 in channel 1 becomes \<open>(10 - 4) / (2 + 1e-5)\<close>, and the missing entry stays
  missing.
\<close>

theorem normalization_uses_training_statistics_witness:
  "shape2 gappy_heldout_array \<le> shape2 gappy_train_array \<and> no_infinity gappy_train_array \<and>
   (\<exists>g' train_data dev_data test_data.
      build_datasets (toy_args 1) (gappy_train_array, [Fin 0, Fin 1]) (gappy_heldout_array, [Fin 1])
          (gappy_heldout_array, [Fin 1]) =
        Inr (g', train_data, dev_data, test_data) \<and>
      train_mean g' = Some [Fin 3, Fin 4] \<and> train_std g' = Some [Fin (sqrt (8/3)), Fin 2] \<and>
      elem (input train_data) 0 0 0 = Fin (- 2 / (sqrt (8/3) + 1 / 100000)) \<and>
      elem (input train_data) 0 1 0 = NaN \<and>
      elem (input train_data) 1 1 0 = Fin (2 / (sqrt (8/3) + 1 / 100000)) \<and>
      elem (input train_data) 0 1 1 = Fin (- 200000 / 200001) \<and>
      elem (input train_data) 1 0 1 = Fin (200000 / 200001) \<and>
      elem (input dev_data) 0 0 0 = Fin (4 / (sqrt (8/3) + 1 / 100000)) \<and>
      elem (input dev_data) 0 1 0 = NaN \<and>
      elem (input dev_data) 0 0 1 = Fin (600000 / 200001) \<and>
      elem (input test_data) 0 1 1 = Fin 0)"
proof -
  have h: "shape2 gappy_heldout_array \<le> shape2 gappy_train_array"
    by (simp add: gappy_shapes)
  have tv: "elem gappy_train_array 0 0 0 = Fin 1" "elem gappy_train_array 0 (Suc 0) 0 = NaN"
    "elem gappy_train_array (Suc 0) (Suc 0) 0 = Fin 5"
    "elem gappy_train_array 0 (Suc 0) (Suc 0) = Fin 2"
    "elem gappy_train_array (Suc 0) 0 (Suc 0) = Fin 6"
    by (simp_all add: gappy_train_array_def)
  have hv: "elem gappy_heldout_array 0 0 0 = Fin 7" "elem gappy_heldout_array 0 (Suc 0) 0 = NaN"
    "elem gappy_heldout_array 0 0 (Suc 0) = Fin 10"
    "elem gappy_heldout_array 0 (Suc 0) (Suc 0) = Fin 4"
    by (simp_all add: gappy_heldout_array_def)
  have u: "[0..<shape2 gappy_train_array] = [0, Suc 0]"
    by (simp add: gappy_shapes upt_rec)
  from normalization_uses_training_statistics [OF h h gappy_no_infinity,
      of "toy_args 1" "[Fin 0, Fin 1]" "[Fin 1]" "[Fin 1]"]
  obtain g' train_data dev_data test_data where
    all: "(build_datasets (toy_args 1) (gappy_train_array, [Fin 0, Fin 1])
          (gappy_heldout_array, [Fin 1]) (gappy_heldout_array, [Fin 1]) =
          Inr (g', train_data, dev_data, test_data)) \<and>
      (train_mean g' = Some (map (mean_stat gappy_train_array) [0..<shape2 gappy_train_array])) \<and>
      (train_std g' = Some (map (std_stat gappy_train_array) [0..<shape2 gappy_train_array])) \<and>
      (\<forall>n t c v. c < shape2 gappy_train_array \<and> 0 < n_present gappy_train_array c \<and>
          elem gappy_train_array n t c = Fin v \<longrightarrow>
        elem (input train_data) n t c = Fin (standard_score gappy_train_array c v)) \<and>
      (\<forall>n t c. c < shape2 gappy_train_array \<and>
          (elem gappy_train_array n t c = NaN \<or> n_present gappy_train_array c = 0) \<longrightarrow>
        elem (input train_data) n t c = NaN) \<and>
      (\<forall>n t c v. c < shape2 gappy_heldout_array \<and> 0 < n_present gappy_train_array c \<and>
          elem gappy_heldout_array n t c = Fin v \<longrightarrow>
        elem (input dev_data) n t c = Fin (standard_score gappy_train_array c v)) \<and>
      (\<forall>n t c. c < shape2 gappy_heldout_array \<and>
          (elem gappy_heldout_array n t c = NaN \<or> n_present gappy_train_array c = 0) \<longrightarrow>
        elem (input dev_data) n t c = NaN) \<and>
      (\<forall>n t c v. c < shape2 gappy_heldout_array \<and> 0 < n_present gappy_train_array c \<and>
          elem gappy_heldout_array n t c = Fin v \<longrightarrow>
        elem (input test_data) n t c = Fin (standard_score gappy_train_array c v)) \<and>
      (\<forall>n t c. c < shape2 gappy_heldout_array \<and>
          (elem gappy_heldout_array n t c = NaN \<or> n_present gappy_train_array c = 0) \<longrightarrow>
        elem (input test_data) n t c = NaN) \<and>
      (\<forall>g0 data lab g1 ds. SigDataset_init g0 data lab False = Inr (g1, ds) \<longrightarrow> g1 = g0)"
    by (elim exE) (rule that)
  from all have b: "build_datasets (toy_args 1) (gappy_train_array, [Fin 0, Fin 1])
          (gappy_heldout_array, [Fin 1]) (gappy_heldout_array, [Fin 1]) =
          Inr (g', train_data, dev_data, test_data)"
    by (elim conjE)
  from all have m: "train_mean g' = Some (map (mean_stat gappy_train_array) [0..<shape2 gappy_train_array])"
    by (elim conjE)
  from all have s: "train_std g' = Some (map (std_stat gappy_train_array) [0..<shape2 gappy_train_array])"
    by (elim conjE)
  from all have t1: "\<forall>n t c v. c < shape2 gappy_train_array \<and> 0 < n_present gappy_train_array c \<and>
          elem gappy_train_array n t c = Fin v \<longrightarrow>
        elem (input train_data) n t c = Fin (standard_score gappy_train_array c v)"
    by (elim conjE)
  from all have t2: "\<forall>n t c. c < shape2 gappy_train_array \<and>
          (elem gappy_train_array n t c = NaN \<or> n_present gappy_train_array c = 0) \<longrightarrow>
        elem (input train_data) n t c = NaN"
    by (elim conjE)
  from all have d1: "\<forall>n t c v. c < shape2 gappy_heldout_array \<and> 0 < n_present gappy_train_array c \<and>
          elem gappy_heldout_array n t c = Fin v \<longrightarrow>
        elem (input dev_data) n t c = Fin (standard_score gappy_train_array c v)"
    by (elim conjE)
  from all have d2: "\<forall>n t c. c < shape2 gappy_heldout_array \<and>
          (elem gappy_heldout_array n t c = NaN \<or> n_present gappy_train_array c = 0) \<longrightarrow>
        elem (input dev_data) n t c = NaN"
    by (elim conjE)
  from all have u1: "\<forall>n t c v. c < shape2 gappy_heldout_array \<and> 0 < n_present gappy_train_array c \<and>
          elem gappy_heldout_array n t c = Fin v \<longrightarrow>
        elem (input test_data) n t c = Fin (standard_score gappy_train_array c v)"
    by (elim conjE)
  have m': "train_mean g' = Some [Fin 3, Fin 4]"
    unfolding m u by (simp add: mean_stat_def gappy_n_present gappy_mean)
  have s': "train_std g' = Some [Fin (sqrt (8/3)), Fin 2]"
    unfolding s u by (simp add: std_stat_def gappy_n_present gappy_std)
  have a1: "elem (input train_data) 0 0 0 = Fin (- 2 / (sqrt (8/3) + 1 / 100000))"
    using t1 [rule_format, of 0 0 0 1] by (simp add: gappy_shapes gappy_n_present tv gappy_score)
  have a2: "elem (input train_data) 0 1 0 = NaN"
    using t2 [rule_format, of 0 0 "Suc 0"] by (simp add: gappy_shapes tv)
  have a3: "elem (input train_data) 1 1 0 = Fin (2 / (sqrt (8/3) + 1 / 100000))"
    using t1 [rule_format, of 0 "Suc 0" "Suc 0" 5] by (simp add: gappy_shapes gappy_n_present tv gappy_score)
  have a4: "elem (input train_data) 0 1 1 = Fin (- 200000 / 200001)"
    using t1 [rule_format, of "Suc 0" 0 "Suc 0" 2] by (simp add: gappy_shapes gappy_n_present tv gappy_score)
  have a5: "elem (input train_data) 1 0 1 = Fin (200000 / 200001)"
    using t1 [rule_format, of "Suc 0" "Suc 0" 0 6] by (simp add: gappy_shapes gappy_n_present tv gappy_score)
  have b1: "elem (input dev_data) 0 0 0 = Fin (4 / (sqrt (8/3) + 1 / 100000))"
    using d1 [rule_format, of 0 0 0 7] by (simp add: gappy_shapes gappy_n_present hv gappy_score)
  have b2: "elem (input dev_data) 0 1 0 = NaN"
    using d2 [rule_format, of 0 0 "Suc 0"] by (simp add: gappy_shapes hv)
  have b3: "elem (input dev_data) 0 0 1 = Fin (600000 / 200001)"
    using d1 [rule_format, of "Suc 0" 0 0 10] by (simp add: gappy_shapes gappy_n_present hv gappy_score)
  have c1: "elem (input test_data) 0 1 1 = Fin 0"
    using u1 [rule_format, of "Suc 0" 0 "Suc 0" 4] by (simp add: gappy_shapes gappy_n_present hv gappy_score)
  from h gappy_no_infinity b m' s' a1 a2 a3 a4 a5 b1 b2 b3 c1 show ?thesis by blast
qed









section \<open>The positional encoding table\<close>

lemma length_div_term: "length (div_term d) = n_slots d 0"
  by (simp add: div_term_def arange_by_2_def n_slots_def)

lemma length_cos_div_term: "length (cos_div_term d) = n_slots d 1"
  by (auto simp: cos_div_term_def div_term_def arange_by_2_def n_slots_def) presburger

lemma nth_div_term: "2 * i < d \<Longrightarrow> div_term d ! i = exp (real (2 * i) * (- ln 10000 / real d))"
  by (simp add: div_term_def arange_by_2_def)

lemma nth_cos_div_term_same: "2 * i + 1 < d \<Longrightarrow> cos_div_term d ! i = div_term d ! i"
proof -
  assume "2 * i + 1 < d"
  then have "i < n_slots d 1" by (simp add: n_slots_def)
  then have "i < length (cos_div_term d)" by (simp add: length_cos_div_term)
  then show "cos_div_term d ! i = div_term d ! i"
    by (auto simp: cos_div_term_def nth_butlast)
qed

lemma nth_cos_div_term:
  "2 * i + 1 < d \<Longrightarrow> cos_div_term d ! i = exp (real (2 * i) * (- ln 10000 / real d))"
  by (simp add: nth_cos_div_term_same nth_div_term)

text \<open>Both strided assignments have as many values as slots, so neither raises.\<close>

lemma create_pe_unfold:
  assumes "0 < d"
  shows "\<exists>pe. create_positional_encoding T d = Inr pe \<and>
     shape0 pe = 1 \<and> shape1 pe = T \<and> shape2 pe = d \<and>
     (\<forall>n p c. elem pe n p c =
           Fin (if 1 \<le> c \<and> (c - 1) mod 2 = 0
                then map (\<lambda>w. cos (real p * w)) (cos_div_term d) !
                       (if n_slots d 1 = 1 then 0 else (c - 1) div 2)
                else if c mod 2 = 0
                then map (\<lambda>w. sin (real p * w)) (div_term d) !
                       (if n_slots d 0 = 1 then 0 else c div 2)
                else 0))"
  using assms length_div_term [of d] length_cos_div_term [of d]
  unfolding create_positional_encoding_def Let_def
  by (simp add: assign_stride_def unsqueeze0_def)

lemma angle: "0 < d \<Longrightarrow>
   real p * exp (real (2 * i) * (- ln 10000 / real d)) = real p / 10000 powr (real (2 * i) / real d)"
  by (simp add: powr_def exp_minus divide_inverse)

lemma create_pe_entries:
  assumes "0 < d"
  shows "\<exists>pe. create_positional_encoding T d = Inr pe \<and>
     shape0 pe = 1 \<and> shape1 pe = T \<and> shape2 pe = d \<and>
     (\<forall>p i. 2 * i < d \<longrightarrow> elem pe 0 p (2 * i) = Fin (sin (real p * div_term d ! i))) \<and>
     (\<forall>p i. 2 * i + 1 < d \<longrightarrow> elem pe 0 p (2 * i + 1) = Fin (cos (real p * div_term d ! i)))"
proof -
  from create_pe_unfold [OF assms, of T] obtain pe where
    pe: "create_positional_encoding T d = Inr pe" "shape0 pe = 1" "shape1 pe = T" "shape2 pe = d"
    and el: "\<And>n p c. elem pe n p c =
           Fin (if 1 \<le> c \<and> (c - 1) mod 2 = 0
                then map (\<lambda>w. cos (real p * w)) (cos_div_term d) !
                       (if n_slots d 1 = 1 then 0 else (c - 1) div 2)
                else if c mod 2 = 0
                then map (\<lambda>w. sin (real p * w)) (div_term d) !
                       (if n_slots d 0 = 1 then 0 else c div 2)
                else 0)"
    by blast
  have ev: "elem pe 0 p (2 * i) = Fin (sin (real p * div_term d ! i))"
    if "2 * i < d" for p i
  proof -
    from that have il: "i < n_slots d 0" by (simp add: n_slots_def)
    then have i0: "n_slots d 0 = 1 \<Longrightarrow> i = 0" by simp
    have odd: "\<not> (1 \<le> 2 * i \<and> (2 * i - 1) mod 2 = 0)" by presburger
    have "elem pe 0 p (2 * i) = Fin (map (\<lambda>w. sin (real p * w)) (div_term d) ! i)"
      using odd i0 by (auto simp: el)
    also have "\<dots> = Fin (sin (real p * div_term d ! i))"
      using il by (simp add: length_div_term)
    finally show ?thesis .
  qed
  have od: "elem pe 0 p (2 * i + 1) = Fin (cos (real p * div_term d ! i))"
    if "2 * i + 1 < d" for p i
  proof -
    from that have il: "i < n_slots d 1" by (simp add: n_slots_def)
    then have i0: "n_slots d 1 = 1 \<Longrightarrow> i = 0" by simp
    have "elem pe 0 p (2 * i + 1) = Fin (map (\<lambda>w. cos (real p * w)) (cos_div_term d) ! i)"
      using i0 by (auto simp: el)
    also have "\<dots> = Fin (cos (real p * cos_div_term d ! i))"
      using il by (simp add: length_cos_div_term)
    finally show ?thesis
      using that by (simp only: nth_cos_div_term_same)
  qed
  from pe ev od show ?thesis by blast
qed

text \<open>
  Claim C8. For a width \<open>D\<close> of at least 1, \<open>create_positional_encoding(T, D)\<close> returns a
  table of shape \<open>(1, T, D)\<close> whose entry at position \<open>pos\<close> is
  \<open>sin(pos / 10000^(2i/D))\<close> in the even column \<open>2i\<close> and the cosine of the same angle in
  the odd column \<open>2i+1\<close>. When \<open>D\<close> is odd, the last cosine column \<open>D-2\<close> uses the
  second-to-last entry of the frequency vector. The table is a function of \<open>(T, D)\<close>
  alone.
\<close>

theorem positional_encoding_entries:
  assumes "0 < D"
  shows "\<exists>pe. create_positional_encoding T D = Inr pe \<and>
     shape0 pe = 1 \<and> shape1 pe = T \<and> shape2 pe = D \<and>
     (\<forall>pos i. 2 * i < D \<longrightarrow>
        elem pe 0 pos (2 * i) = Fin (sin (real pos / 10000 powr (real (2 * i) / real D)))) \<and>
     (\<forall>pos i. 2 * i + 1 < D \<longrightarrow>
        elem pe 0 pos (2 * i + 1) = Fin (cos (real pos / 10000 powr (real (2 * i) / real D)))) \<and>
     (\<forall>pos. D mod 2 = 1 \<and> 3 \<le> D \<longrightarrow>
        elem pe 0 pos (D - 2) = Fin (cos (real pos * div_term D ! (length (div_term D) - 2))))"
proof -
  from create_pe_entries [OF assms, of T] obtain pe where
    pe: "create_positional_encoding T D = Inr pe" "shape0 pe = 1" "shape1 pe = T" "shape2 pe = D"
    and ev: "\<And>p i. 2 * i < D \<Longrightarrow> elem pe 0 p (2 * i) = Fin (sin (real p * div_term D ! i))"
    and od: "\<And>p i. 2 * i + 1 < D \<Longrightarrow> elem pe 0 p (2 * i + 1) = Fin (cos (real p * div_term D ! i))"
    by blast
  have a: "\<forall>pos i. 2 * i < D \<longrightarrow>
        elem pe 0 pos (2 * i) = Fin (sin (real pos / 10000 powr (real (2 * i) / real D)))"
  proof (intro allI impI)
    fix pos i assume h: "2 * i < D"
    have "real pos * div_term D ! i = real pos / 10000 powr (real (2 * i) / real D)"
      using h assms by (simp only: nth_div_term angle)
    with ev [OF h, of pos]
    show "elem pe 0 pos (2 * i) = Fin (sin (real pos / 10000 powr (real (2 * i) / real D)))"
      by simp
  qed
  have b: "\<forall>pos i. 2 * i + 1 < D \<longrightarrow>
        elem pe 0 pos (2 * i + 1) = Fin (cos (real pos / 10000 powr (real (2 * i) / real D)))"
  proof (intro allI impI)
    fix pos i assume h: "2 * i + 1 < D"
    then have h': "2 * i < D" by simp
    have "real pos * div_term D ! i = real pos / 10000 powr (real (2 * i) / real D)"
      using h' assms by (simp only: nth_div_term angle)
    with od [OF h, of pos]
    show "elem pe 0 pos (2 * i + 1) = Fin (cos (real pos / 10000 powr (real (2 * i) / real D)))"
      by simp
  qed
  have c: "\<forall>pos. D mod 2 = 1 \<and> 3 \<le> D \<longrightarrow>
        elem pe 0 pos (D - 2) = Fin (cos (real pos * div_term D ! (length (div_term D) - 2)))"
  proof (intro allI impI)
    fix pos assume h: "D mod 2 = 1 \<and> 3 \<le> D"
    define i where "i = (D - 3) div 2"
    have i: "D = 2 * i + 3"
      using h unfolding i_def by presburger
    have "length (div_term D) = i + 2"
      unfolding length_div_term n_slots_def i by presburger
    then have l: "length (div_term D) - 2 = i" by simp
    have e: "D - 2 = 2 * i + 1" using i by simp
    have "2 * i + 1 < D" using i by simp
    from od [OF this, of pos]
    show "elem pe 0 pos (D - 2) = Fin (cos (real pos * div_term D ! (length (div_term D) - 2)))"
      unfolding e l .
  qed
  from pe a b c show ?thesis by blast
qed

text \<open>
  Width 3, two positions: at position 1 the sine columns 0 and 2 use the frequencies
  \<open>1\<close> and \<open>10000^(-2/3)\<close>, and the only cosine column, 1, uses the first of the two.
\<close>

theorem positional_encoding_entries_witness:
  "(0::nat) < 3 \<and>
   (\<exists>pe. create_positional_encoding 2 3 = Inr pe \<and>
      shape0 pe = 1 \<and> shape1 pe = 2 \<and> shape2 pe = 3 \<and>
      elem pe 0 1 0 = Fin (sin 1) \<and>
      elem pe 0 1 1 = Fin (cos 1) \<and>
      elem pe 0 1 2 = Fin (sin (1 / 10000 powr (2 / 3))) \<and>
      elem pe 0 0 1 = Fin 1)"
proof -
  have h: "(0::nat) < 3" by simp
  from positional_encoding_entries [OF h, of 2] obtain pe where
    pe: "create_positional_encoding 2 3 = Inr pe" "shape0 pe = 1" "shape1 pe = 2" "shape2 pe = 3"
    and ev: "\<And>pos i. 2 * i < (3::nat) \<Longrightarrow>
        elem pe 0 pos (2 * i) = Fin (sin (real pos / 10000 powr (real (2 * i) / real 3)))"
    and od: "\<And>pos i. 2 * i + 1 < (3::nat) \<Longrightarrow>
        elem pe 0 pos (2 * i + 1) = Fin (cos (real pos / 10000 powr (real (2 * i) / real 3)))"
    by blast
  have a: "elem pe 0 1 0 = Fin (sin 1)" using ev [of 0 1] by simp
  have b: "elem pe 0 1 1 = Fin (cos 1)" using od [of 0 1] by simp
  have c: "elem pe 0 1 2 = Fin (sin (1 / 10000 powr (2 / 3)))" using ev [of 1 1] by simp
  have d: "elem pe 0 0 1 = Fin 1" using od [of 0 0] by simp
  from h pe a b c d show ?thesis by blast
qed


section \<open>What enters the towers\<close>

lemma prepared_nan: "isnan v \<Longrightarrow> prepared v p = Fin 0"
  by (simp add: prepared_def isnan_def)

lemma prepared_numbers: "prepared (Fin a) (Fin b) = Fin (a + b)"
  by (simp add: prepared_def isnan_def)

lemma bidx_in: "i < m \<Longrightarrow> bidx m i = i"
  by (auto simp: bidx_def)

lemma feature_lengths:
  "length network_feature = 6" "length radio_feature = 3" "length bs_feature = 2"
  by (simp_all add: network_feature_def radio_feature_def bs_feature_def)

lemma add_pe_same:
  assumes "shape1 x = shape1 pe" "shape2 x = shape2 pe"
  shows "\<exists>y. add_pe x pe = Inr y \<and> shape0 y = shape0 x \<and> shape1 y = shape1 x \<and>
           shape2 y = shape2 x \<and>
           (\<forall>n t c. t < shape1 x \<and> c < shape2 x \<longrightarrow>
              elem y n t c = fadd (elem x n t c) (elem pe 0 t c))"
  using assms by (simp add: add_pe_def bdim_def bidx_in)

lemma zero_nan_elem:
  "elem (zero_nan y) n t c = (if isnan (elem y n t c) then Fin 0 else elem y n t c)"
  "shape0 (zero_nan y) = shape0 y" "shape1 (zero_nan y) = shape1 y" "shape2 (zero_nan y) = shape2 y"
  by (simp_all add: zero_nan_def)

lemma slice2_elem:
  "elem (slice2 z lo hi) n t c = elem z n t (min lo (shape2 z) + c)"
  "shape2 (slice2 z lo hi) = min hi (shape2 z) - min lo (shape2 z)"
  "shape1 (slice2 z lo hi) = shape1 z"
  by (simp_all add: slice2_def Let_def)

lemma forward_tower_inputs_spec:
  assumes "shape1 x = shape1 pe" "shape2 x = shape2 pe"
  shows "\<exists>x_network x_radio x_bs.
     forward_tower_inputs pe x = Inr (x_network, x_radio, x_bs) \<and>
     shape2 x_network = min 6 (shape2 x) \<and>
     shape2 x_radio = min 9 (shape2 x) - min 6 (shape2 x) \<and>
     shape2 x_bs = min 2 (shape2 x) \<and>
     (\<forall>n t c. t < shape1 x \<and> c < shape2 x_network \<longrightarrow>
        elem x_network n t c = prepared (elem x n t c) (elem pe 0 t c)) \<and>
     (\<forall>n t c. t < shape1 x \<and> c < shape2 x_radio \<longrightarrow>
        elem x_radio n t c = prepared (elem x n t (6 + c)) (elem pe 0 t (6 + c))) \<and>
     (\<forall>n t c. t < shape1 x \<and> c < shape2 x_bs \<longrightarrow>
        elem x_bs n t c =
          prepared (elem x n t (shape2 x - 2 + c)) (elem pe 0 t (shape2 x - 2 + c)))"
proof -
  from add_pe_same [OF assms] obtain y where
    y: "add_pe x pe = Inr y" "shape1 y = shape1 x" "shape2 y = shape2 x" and
    ye: "\<And>n t c. t < shape1 x \<Longrightarrow> c < shape2 x \<Longrightarrow>
           elem y n t c = fadd (elem x n t c) (elem pe 0 t c)"
    by blast
  let ?z = "zero_nan y"
  let ?C = "shape2 x"
  have ze: "\<And>n t c. t < shape1 x \<Longrightarrow> c < ?C \<Longrightarrow>
      elem ?z n t c = prepared (elem x n t c) (elem pe 0 t c)"
    by (simp add: zero_nan_elem ye prepared_def)
  have zs: "shape2 ?z = ?C" by (simp add: zero_nan_elem y)
  have f: "forward_tower_inputs pe x =
      Inr (slice2 ?z 0 6, slice2 ?z 6 (6 + 3), slice2 ?z (?C - 2) ?C)"
    by (simp add: forward_tower_inputs_def y(1) Let_def feature_lengths zs)
  have a: "\<forall>n t c. t < shape1 x \<and> c < shape2 (slice2 ?z 0 6) \<longrightarrow>
        elem (slice2 ?z 0 6) n t c = prepared (elem x n t c) (elem pe 0 t c)"
    by (simp add: slice2_elem zs ze)
  have b: "\<forall>n t c. t < shape1 x \<and> c < shape2 (slice2 ?z 6 (6 + 3)) \<longrightarrow>
        elem (slice2 ?z 6 (6 + 3)) n t c = prepared (elem x n t (6 + c)) (elem pe 0 t (6 + c))"
  proof (intro allI impI)
    fix n t c assume h: "t < shape1 x \<and> c < shape2 (slice2 ?z 6 (6 + 3))"
    then have "c < min 9 ?C - min 6 ?C" by (simp add: slice2_elem zs)
    then have "6 + c < ?C \<and> min 6 ?C = 6" by (auto simp: min_def split: if_splits)
    with h show "elem (slice2 ?z 6 (6 + 3)) n t c =
        prepared (elem x n t (6 + c)) (elem pe 0 t (6 + c))"
      by (simp add: slice2_elem zs ze)
  qed
  have c: "\<forall>n t c. t < shape1 x \<and> c < shape2 (slice2 ?z (?C - 2) ?C) \<longrightarrow>
        elem (slice2 ?z (?C - 2) ?C) n t c =
          prepared (elem x n t (?C - 2 + c)) (elem pe 0 t (?C - 2 + c))"
  proof (intro allI impI)
    fix n t c assume h: "t < shape1 x \<and> c < shape2 (slice2 ?z (?C - 2) ?C)"
    then have "c < ?C - (?C - 2)" by (simp add: slice2_elem zs)
    then have "?C - 2 + c < ?C" by simp
    with h show "elem (slice2 ?z (?C - 2) ?C) n t c =
          prepared (elem x n t (?C - 2 + c)) (elem pe 0 t (?C - 2 + c))"
      by (simp add: slice2_elem zs ze)
  qed
  have sh: "shape2 (slice2 ?z 0 6) = min 6 ?C"
    "shape2 (slice2 ?z 6 (6 + 3)) = min 9 ?C - min 6 ?C"
    "shape2 (slice2 ?z (?C - 2) ?C) = min 2 ?C"
    by (simp_all add: slice2_elem zs min_def)
  show ?thesis
    using f a b c sh by blast
qed

text \<open>The table for one position and two columns: \<open>sin 0 = 0\<close> and \<open>cos 0 = 1\<close>.\<close>

lemma small_table:
  "\<exists>pe. create_positional_encoding 1 2 = Inr pe \<and> shape1 pe = 1 \<and> shape2 pe = 2 \<and>
     elem pe 0 0 0 = Fin 0 \<and> elem pe 0 0 1 = Fin 1"
proof -
  have h: "(0::nat) < 2" by simp
  from create_pe_entries [OF h, of 1] obtain pe where
    pe: "create_positional_encoding 1 2 = Inr pe" "shape1 pe = 1" "shape2 pe = 2"
    and ev: "\<And>p i. 2 * i < (2::nat) \<Longrightarrow> elem pe 0 p (2 * i) = Fin (sin (real p * div_term 2 ! i))"
    and od: "\<And>p i. 2 * i + 1 < (2::nat) \<Longrightarrow> elem pe 0 p (2 * i + 1) = Fin (cos (real p * div_term 2 ! i))"
    by blast
  have a: "elem pe 0 0 0 = Fin 0" using ev [of 0 0] by simp
  have b: "elem pe 0 0 1 = Fin 1" using od [of 0 0] by simp
  from pe a b show ?thesis by blast
qed

lemma missing_window_facts:
  "shape1 missing_window = 1" "shape2 missing_window = 2" "elem missing_window n t c = NaN"
  by (simp_all add: missing_window_def)

text \<open>
  Claim C2, as the code has it. \<open>Model.forward\<close> adds the positional-encoding table to
  the window and zeroes NaN entries afterwards, and a NaN plus anything is NaN: every
  entry of a tower input is \<open>raw + pe\<close> when that is not NaN and 0 otherwise, so at a
  position whose raw value is NaN the towers receive exactly 0, whatever the positional
  encoding of that position. (The window has the window length and width of the table.)
\<close>

theorem nan_entries_enter_the_towers_as_zero:
  assumes "shape1 x = shape1 pe" and "shape2 x = shape2 pe"
  shows "\<exists>x_network x_radio x_bs.
     forward_tower_inputs pe x = Inr (x_network, x_radio, x_bs) \<and>
     shape2 x_network = min 6 (shape2 x) \<and>
     shape2 x_radio = min 9 (shape2 x) - min 6 (shape2 x) \<and>
     shape2 x_bs = min 2 (shape2 x) \<and>
     (\<forall>n t c. t < shape1 x \<and> c < shape2 x_network \<longrightarrow>
        elem x_network n t c = prepared (elem x n t c) (elem pe 0 t c)) \<and>
     (\<forall>n t c. t < shape1 x \<and> c < shape2 x_radio \<longrightarrow>
        elem x_radio n t c = prepared (elem x n t (6 + c)) (elem pe 0 t (6 + c))) \<and>
     (\<forall>n t c. t < shape1 x \<and> c < shape2 x_bs \<longrightarrow>
        elem x_bs n t c =
          prepared (elem x n t (shape2 x - 2 + c)) (elem pe 0 t (shape2 x - 2 + c))) \<and>
     (\<forall>v p. isnan v \<longrightarrow> prepared v p = Fin 0) \<and>
     (\<forall>a b. prepared (Fin a) (Fin b) = Fin (a + b))"
proof -
  from forward_tower_inputs_spec [OF assms] obtain x_network x_radio x_bs where
    r: "forward_tower_inputs pe x = Inr (x_network, x_radio, x_bs) \<and>
     shape2 x_network = min 6 (shape2 x) \<and>
     shape2 x_radio = min 9 (shape2 x) - min 6 (shape2 x) \<and>
     shape2 x_bs = min 2 (shape2 x) \<and>
     (\<forall>n t c. t < shape1 x \<and> c < shape2 x_network \<longrightarrow>
        elem x_network n t c = prepared (elem x n t c) (elem pe 0 t c)) \<and>
     (\<forall>n t c. t < shape1 x \<and> c < shape2 x_radio \<longrightarrow>
        elem x_radio n t c = prepared (elem x n t (6 + c)) (elem pe 0 t (6 + c))) \<and>
     (\<forall>n t c. t < shape1 x \<and> c < shape2 x_bs \<longrightarrow>
        elem x_bs n t c =
          prepared (elem x n t (shape2 x - 2 + c)) (elem pe 0 t (shape2 x - 2 + c)))"
    by blast
  have n: "\<forall>v p. isnan v \<longrightarrow> prepared v p = Fin 0"
    by (simp add: prepared_nan)
  have m: "\<forall>a b. prepared (Fin a) (Fin b) = Fin (a + b)"
    by (simp add: prepared_numbers)
  from r n m show ?thesis by blast
qed

text \<open>
  A window with both channels missing, under the table for one position and two
  columns: the network tower receives 0 in both channels.
\<close>

theorem nan_entries_enter_the_towers_as_zero_witness:
  "shape1 missing_window = shape1 (projr (create_positional_encoding 1 2)) \<and>
   shape2 missing_window = shape2 (projr (create_positional_encoding 1 2)) \<and>
   (\<exists>x_network x_radio x_bs.
      forward_tower_inputs (projr (create_positional_encoding 1 2)) missing_window =
        Inr (x_network, x_radio, x_bs) \<and>
      shape2 x_network = 2 \<and> shape2 x_radio = 0 \<and> shape2 x_bs = 2 \<and>
      elem x_network 0 0 0 = Fin 0 \<and> elem x_network 0 0 1 = Fin 0)"
proof -
  from small_table obtain pe where
    pe: "create_positional_encoding 1 2 = Inr pe" "shape1 pe = 1" "shape2 pe = 2"
    by blast
  have p: "projr (create_positional_encoding 1 2) = pe" by (simp only: pe(1) sum.sel)
  have h1: "shape1 missing_window = shape1 pe" by (simp add: missing_window_facts pe)
  have h2: "shape2 missing_window = shape2 pe" by (simp add: missing_window_facts pe)
  from nan_entries_enter_the_towers_as_zero [OF h1 h2] obtain x_network x_radio x_bs where
    f: "forward_tower_inputs pe missing_window = Inr (x_network, x_radio, x_bs)"
    and sh: "shape2 x_network = min 6 (shape2 missing_window)"
      "shape2 x_radio = min 9 (shape2 missing_window) - min 6 (shape2 missing_window)"
      "shape2 x_bs = min 2 (shape2 missing_window)"
    and el: "\<And>n t c. t < shape1 missing_window \<and> c < shape2 x_network \<Longrightarrow>
        elem x_network n t c = prepared (elem missing_window n t c) (elem pe 0 t c)"
    and nn: "\<And>v p. isnan v \<Longrightarrow> prepared v p = Fin 0"
    by blast
  have s: "shape2 x_network = 2" "shape2 x_radio = 0" "shape2 x_bs = 2"
    using sh by (simp_all add: missing_window_facts)
  have a: "elem x_network 0 0 0 = Fin 0"
    using el [of 0 0 0] nn [of NaN] by (simp add: s missing_window_facts isnan_def)
  have b: "elem x_network 0 0 1 = Fin 0"
    using el [of 0 1 0] nn [of NaN] by (simp add: s missing_window_facts isnan_def)
  from h1 h2 f s a b show ?thesis unfolding p by blast
qed

text \<open>
  At timestep 0, channel 1 of that window the raw value is NaN and the positional
  encoding is \<open>cos 0 = 1\<close>; the value that enters the network tower there is 0.
\<close>

theorem missing_value_loses_positional_signal:
  "\<not> isl (create_positional_encoding 1 2) \<and>
   elem (projr (create_positional_encoding 1 2)) 0 0 1 = Fin 1 \<and>
   isnan (elem missing_window 0 0 1) \<and>
   \<not> isl (forward_tower_inputs (projr (create_positional_encoding 1 2)) missing_window) \<and>
   elem (fst (projr (forward_tower_inputs (projr (create_positional_encoding 1 2))
     missing_window))) 0 0 1 = Fin 0"
proof -
  from small_table obtain pe where
    pe: "create_positional_encoding 1 2 = Inr pe" "shape1 pe = 1" "shape2 pe = 2"
    "elem pe 0 0 1 = Fin 1"
    by blast
  have p: "projr (create_positional_encoding 1 2) = pe" by (simp only: pe(1) sum.sel)
  have h1: "shape1 missing_window = shape1 pe" by (simp add: missing_window_facts pe)
  have h2: "shape2 missing_window = shape2 pe" by (simp add: missing_window_facts pe)
  from forward_tower_inputs_spec [OF h1 h2] obtain x_network x_radio x_bs where
    f: "forward_tower_inputs pe missing_window = Inr (x_network, x_radio, x_bs)"
    and sh: "shape2 x_network = min 6 (shape2 missing_window)"
    and el: "\<And>n t c. t < shape1 missing_window \<and> c < shape2 x_network \<Longrightarrow>
        elem x_network n t c = prepared (elem missing_window n t c) (elem pe 0 t c)"
    by blast
  have b: "elem x_network 0 0 1 = Fin 0"
    using el [of 0 1 0] sh by (simp add: missing_window_facts prepared_nan isnan_def)
  have i1: "\<not> isl (create_positional_encoding 1 2)"
    by (simp only: pe(1) sum.disc not_False_eq_True)
  have i2: "\<not> isl (forward_tower_inputs pe missing_window)"
    by (simp only: f sum.disc not_False_eq_True)
  have e: "elem (fst (projr (forward_tower_inputs pe missing_window))) 0 0 1 = Fin 0"
    by (simp only: f sum.sel fst_conv b)
  have n: "isnan (elem missing_window 0 0 1)"
    by (simp add: missing_window_facts isnan_def)
  from i1 i2 e n pe(4) show ?thesis
    unfolding p by blast
qed


section \<open>The test evaluation never reaches the model\<close>

lemma empty_report:
  "test_report [] [] =
     \<lparr> r_loss = NaN, r_n_acc = NaN, r_precision = NaN, r_recall = NaN, r_fpr = NaN,
       r_fnr = NaN, r_acc = NaN, r_f1 = NaN \<rparr>"
  by (simp add: test_report_def Let_def test_confusion_by_threshold by_threshold_def np_mean_def
      fsum_def n_acc_of_def precision_of_def recall_of_def fpr_of_def fnr_of_def acc_of_def
      f1_of_def idiv_def)

text \<open>
  Claim C1 says the evaluator runs the model on every test batch and reports metrics of
  those predictions. The code does not: with a checkpoint on disk, the first test batch
  raises (three names are unpacked from a batch of two tensors), and the loop body has
  no forward pass; only an empty test loader gets a report, every value of which is NaN.
  Without a checkpoint the load raises.
\<close>

theorem test_eval_reports_no_prediction:
  "test_eval g (batch_data # rest) s =
     (case checkpoint s of None \<Rightarrow> Inl FileNotFoundError | Some w \<Rightarrow> Inl ValueError) \<and>
   test_eval g [] s =
     (case checkpoint s of
        None \<Rightarrow> Inl FileNotFoundError
      | Some w \<Rightarrow>
          Inr (\<lparr> r_loss = NaN, r_n_acc = NaN, r_precision = NaN, r_recall = NaN, r_fpr = NaN,
                 r_fnr = NaN, r_acc = NaN, r_f1 = NaN \<rparr>, []))"
  by (simp add: test_eval_def empty_report split: option.splits)

end
